theory Spec2Isabelle
  imports Complex_Main
begin

section \<open>Configuration\<close>

text \<open>
  The scripts read their limits from the global object \<^verbatim>\<open>CONFIG\<close>; the model passes
  it to every function that reads it. \<open>CONFIG_azure\<close> has the values of
  \<^verbatim>\<open>analyze-codebase-azure.js\<close>, \<open>CONFIG_gemini\<close> those of the Gemini batch script.
\<close>

record Config =
  BATCH_SIZE :: nat
  MAX_INPUT_TOKENS :: nat
  RETRY_ATTEMPTS :: nat
  RETRY_DELAY_MS :: nat
  RETRY_BACKOFF :: nat
  PARALLEL_BATCHES :: nat

definition CONFIG_azure :: Config where
  "CONFIG_azure = \<lparr>BATCH_SIZE = 15, MAX_INPUT_TOKENS = 120000, RETRY_ATTEMPTS = 3,
     RETRY_DELAY_MS = 1000, RETRY_BACKOFF = 2, PARALLEL_BATCHES = 3\<rparr>"

definition CONFIG_gemini :: Config where
  "CONFIG_gemini = \<lparr>BATCH_SIZE = 15, MAX_INPUT_TOKENS = 800000, RETRY_ATTEMPTS = 3,
     RETRY_DELAY_MS = 1000, RETRY_BACKOFF = 2, PARALLEL_BATCHES = 3\<rparr>"

section \<open>Batch planning: \<open>estimateTokens\<close> and \<open>createBatches\<close>\<close>

text \<open>
  A source item is the object \<^verbatim>\<open>{ path, name, content }\<close> that
  \<^verbatim>\<open>analyzeCodebaseInBatches\<close> builds for every file it could read.
\<close>

record SourceItem =
  path :: string
  name :: string
  content :: string

type_synonym batch = "SourceItem list"

text \<open>
  \<^verbatim>\<open>function estimateTokens(text) { return Math.ceil(text.length / 4); }\<close>
\<close>

definition estimateTokens :: "string \<Rightarrow> nat" where
  "estimateTokens text = nat \<lceil>rat_of_nat (length text) / 4\<rceil>"

text \<open>
  The body of the \<^verbatim>\<open>for (const file of fileContents)\<close> loop of
  \<^verbatim>\<open>createBatches\<close>. The loop state is the triple
  \<open>(batches, currentBatch, currentTokenEstimate)\<close>.
\<close>

definition createBatches_step ::
  "Config \<Rightarrow> nat \<Rightarrow> batch list \<times> batch \<times> nat \<Rightarrow> SourceItem \<Rightarrow> batch list \<times> batch \<times> nat" where
  "createBatches_step cfg batchSize st file =
     (case st of (batches, currentBatch, currentTokenEstimate) \<Rightarrow>
        let fileTokens = estimateTokens (content file) in
        (case (if length currentBatch \<ge> batchSize \<or>
                  (currentTokenEstimate + fileTokens > MAX_INPUT_TOKENS cfg \<and> length currentBatch > 0)
               then (batches @ [currentBatch], [], 0)
               else (batches, currentBatch, currentTokenEstimate)) of
           (batches, currentBatch, currentTokenEstimate) \<Rightarrow>
             (batches, currentBatch @ [file], currentTokenEstimate + fileTokens)))"

fun createBatches_loop ::
  "Config \<Rightarrow> nat \<Rightarrow> batch list \<times> batch \<times> nat \<Rightarrow> SourceItem list \<Rightarrow> batch list \<times> batch \<times> nat" where
  "createBatches_loop cfg batchSize st [] = st"
| "createBatches_loop cfg batchSize st (file # rest) =
     createBatches_loop cfg batchSize
       (createBatches_step cfg batchSize st file) rest"

definition createBatches :: "Config \<Rightarrow> SourceItem list \<Rightarrow> nat \<Rightarrow> batch list" where
  "createBatches cfg fileContents batchSize =
     (case createBatches_loop cfg batchSize ([], [], 0) fileContents of
        (batches, currentBatch, currentTokenEstimate) \<Rightarrow>
          if length currentBatch > 0 then batches @ [currentBatch] else batches)"

section \<open>Retrying executor: \<open>analyzeBatchWithRetry\<close>\<close>

text \<open>
  One call of \<^verbatim>\<open>analyzeBatch\<close> talks to the remote service, so its outcome depends
  on the world outside the script. The model threads that world through the calls:
  \<open>analyzeBatch w\<close> is the outcome of one invocation in world \<open>w\<close> (\<open>Inl\<close> the
  thrown error, \<open>Inr\<close> the returned record) together with the world it leaves behind.
  The trace records, in order, every invocation (with its attempt number) and every
  \<^verbatim>\<open>sleep(delay)\<close>.
\<close>

datatype event = Invoke nat | Sleep nat

type_synonym ('w, 'e, 'r) submit = "'w \<Rightarrow> ('e + 'r) \<times> 'w"

text \<open>
  The \<^verbatim>\<open>for (let attempt = 1; attempt <= CONFIG.RETRY_ATTEMPTS; attempt++)\<close> loop.
  \<open>lastError\<close> is \<open>None\<close> while the JavaScript variable is still
  \<^verbatim>\<open>undefined\<close>; leaving the loop reaches \<^verbatim>\<open>throw lastError\<close>.
\<close>

function analyzeBatchWithRetry_loop ::
  "Config \<Rightarrow> ('w, 'e, 'r) submit \<Rightarrow> nat \<Rightarrow> 'e option \<Rightarrow> event list \<Rightarrow> 'w \<Rightarrow>
     ('e option + 'r) \<times> event list \<times> 'w" where
  "analyzeBatchWithRetry_loop cfg analyzeBatch attempt lastError trace w =
     (if attempt \<le> RETRY_ATTEMPTS cfg then
        (case analyzeBatch w of
           (Inr result, w') \<Rightarrow> (Inr result, trace @ [Invoke attempt], w')
         | (Inl error, w') \<Rightarrow>
             (if attempt < RETRY_ATTEMPTS cfg then
                let delay = RETRY_DELAY_MS cfg * RETRY_BACKOFF cfg ^ (attempt - 1) in
                analyzeBatchWithRetry_loop cfg analyzeBatch (attempt + 1) (Some error)
                  (trace @ [Invoke attempt, Sleep delay]) w'
              else
                analyzeBatchWithRetry_loop cfg analyzeBatch (attempt + 1) (Some error)
                  (trace @ [Invoke attempt]) w'))
      else (Inl lastError, trace, w))"
  by pat_completeness auto
termination
  by (relation "measure (\<lambda>(cfg, analyzeBatch, attempt, lastError, trace, w).
        RETRY_ATTEMPTS cfg + 1 - attempt)") auto

definition analyzeBatchWithRetry ::
  "Config \<Rightarrow> ('w, 'e, 'r) submit \<Rightarrow> 'w \<Rightarrow> ('e option + 'r) \<times> event list \<times> 'w" where
  "analyzeBatchWithRetry cfg analyzeBatch w =
     analyzeBatchWithRetry_loop cfg analyzeBatch 1 None [] w"

text \<open>The number of \<^verbatim>\<open>analyzeBatch\<close> invocations and the waits of a trace.\<close>

definition invocations :: "event list \<Rightarrow> nat" where
  "invocations trace = length (filter (\<lambda>ev. case ev of Invoke k \<Rightarrow> True | Sleep d \<Rightarrow> False) trace)"

definition waits :: "event list \<Rightarrow> nat list" where
  "waits trace = concat (map (\<lambda>ev. case ev of Invoke k \<Rightarrow> [] | Sleep d \<Rightarrow> [d]) trace)"

section \<open>Bounded-concurrency dispatch: \<open>processBatchesInParallel\<close>\<close>

text \<open>
  Each chunk promise is \<^verbatim>\<open>analyzeBatchWithRetry(...).then(result => ({ success: true,
  batchNumber, result })).catch(error => ({ success: false, batchNumber, error, batch }))\<close>:
  it fulfils with one of two wrapper objects.
\<close>

datatype ('e, 'r) wrapped =
  Success nat 'r
| Failure nat 'e batch

text \<open>What \<^verbatim>\<open>Promise.allSettled\<close> reports for one promise.\<close>

datatype 'a settled = Fulfilled 'a | Rejected

text \<open>
  The \<^verbatim>\<open>error\<close> of an entry of \<^verbatim>\<open>errors\<close> is either the error the retrying
  executor threw or \<^verbatim>\<open>new Error('Unexpected promise rejection')\<close>.
\<close>

datatype 'e batch_error = Thrown 'e | UnexpectedPromiseRejection

record 'e BatchFailure =
  batchNumber :: nat
  error :: "'e batch_error"
  files :: "string list"

text \<open>\<^verbatim>\<open>batches.slice(start, end)\<close> for \<open>0 \<le> start\<close> and \<open>0 \<le> end\<close>.\<close>

definition slice :: "'a list \<Rightarrow> nat \<Rightarrow> nat \<Rightarrow> 'a list" where
  "slice xs start end = take (end - start) (drop start xs)"

text \<open>
  \<open>analyze batchNumber batch\<close> is the outcome of
  \<^verbatim>\<open>analyzeBatchWithRetry(batch, ..., batchNumber, ...)\<close>: the tasks of a wave run
  concurrently, and the model takes the outcome each of them settles with as given.
\<close>

definition chunkPromises ::
  "(nat \<Rightarrow> batch \<Rightarrow> 'e + 'r) \<Rightarrow> nat \<Rightarrow> batch list \<Rightarrow> ('e, 'r) wrapped list" where
  "chunkPromises analyze i chunk =
     map (\<lambda>(chunkIndex, batch).
            let batchNumber = i + chunkIndex + 1 in
            (case analyze batchNumber batch of
               Inr result \<Rightarrow> Success batchNumber result
             | Inl err \<Rightarrow> Failure batchNumber err batch))
         (zip [0..<length chunk] chunk)"

definition allSettled :: "'a list \<Rightarrow> 'a settled list" where
  "allSettled promises = map Fulfilled promises"

text \<open>The callback of \<^verbatim>\<open>chunkResults.forEach((settledResult, chunkIndex) => ...)\<close>.\<close>

definition collect ::
  "nat \<Rightarrow> batch list \<Rightarrow> 'r list \<times> 'e BatchFailure list \<Rightarrow> nat \<times> ('e, 'r) wrapped settled \<Rightarrow>
     'r list \<times> 'e BatchFailure list" where
  "collect i chunk acc entry =
     (case acc of (results, errors) \<Rightarrow>
      case entry of (chunkIndex, settledResult) \<Rightarrow>
        let batchNumber = i + chunkIndex + 1 in
        (case settledResult of
           Fulfilled result \<Rightarrow>
             (case result of
                Success bn r \<Rightarrow> (results @ [r], errors)
              | Failure bn e b \<Rightarrow>
                  (results, errors @ [\<lparr>batchNumber = bn, error = Thrown e, files = map name b\<rparr>]))
         | Rejected \<Rightarrow>
             (results, errors @ [\<lparr>batchNumber = batchNumber, error = UnexpectedPromiseRejection,
                                   files = map name (chunk ! chunkIndex)\<rparr>])))"

definition processChunk ::
  "(nat \<Rightarrow> batch \<Rightarrow> 'e + 'r) \<Rightarrow> batch list \<Rightarrow> nat \<Rightarrow> nat \<Rightarrow>
     'r list \<times> 'e BatchFailure list \<Rightarrow> 'r list \<times> 'e BatchFailure list" where
  "processChunk analyze batches concurrency i acc =
     (let chunk = slice batches i (min (i + concurrency) (length batches));
          chunkResults = allSettled (chunkPromises analyze i chunk)
      in foldl (collect i chunk) acc (zip [0..<length chunkResults] chunkResults))"

text \<open>
  The wave loop \<^verbatim>\<open>for (let i = 0; i < batches.length; i += concurrency)\<close>. With
  \<open>concurrency = 0\<close> and a batch to process the loop never ends, so the loop is a
  partial function: \<open>None\<close> is "does not return".
\<close>

partial_function (option) processBatchesInParallel_loop ::
  "(nat \<Rightarrow> batch \<Rightarrow> 'e + 'r) \<Rightarrow> batch list \<Rightarrow> nat \<Rightarrow> nat \<Rightarrow>
     'r list \<times> 'e BatchFailure list \<Rightarrow> ('r list \<times> 'e BatchFailure list) option" where
  "processBatchesInParallel_loop analyze batches concurrency i acc =
     (if i < length batches then
        processBatchesInParallel_loop analyze batches concurrency (i + concurrency)
          (processChunk analyze batches concurrency i acc)
      else Some acc)"

definition processBatchesInParallel ::
  "batch list \<Rightarrow> (nat \<Rightarrow> batch \<Rightarrow> 'e + 'r) \<Rightarrow> nat \<Rightarrow> ('r list \<times> 'e BatchFailure list) option" where
  "processBatchesInParallel batches analyze concurrency =
     processBatchesInParallel_loop analyze batches concurrency 0 ([], [])"

section \<open>JSON repair: \<open>attemptJsonRepair\<close>\<close>

text \<open>
  A JavaScript string is a sequence of UTF-16 code units; the model has the code units
  below 256, as \<^typ>\<open>char\<close>. The characters the repair looks at:
\<close>

definition backslash :: char where "backslash = CHR 0x5C"
definition quote :: char where "quote = CHR 0x22"
definition TAB :: char where "TAB = CHR 0x09"
definition LF :: char where "LF = CHR 0x0A"
definition CR :: char where "CR = CHR 0x0D"

text \<open>
  \<^verbatim>\<open>s.indexOf(c)\<close> and \<^verbatim>\<open>s.lastIndexOf(c)\<close>: the position of the first and of
  the last occurrence, \<open>-1\<close> when there is none.
\<close>

fun indexOf :: "string \<Rightarrow> char \<Rightarrow> int" where
  "indexOf [] c = -1"
| "indexOf (x # xs) c =
     (if x = c then 0 else (let r = indexOf xs c in if r < 0 then -1 else r + 1))"

definition lastIndexOf :: "string \<Rightarrow> char \<Rightarrow> int" where
  "lastIndexOf s c = (let r = indexOf (rev s) c in if r < 0 then -1 else int (length s) - 1 - r)"

text \<open>\<^verbatim>\<open>s.substring(start, end)\<close> for \<open>0 \<le> start \<le> end\<close>.\<close>

definition substring :: "string \<Rightarrow> int \<Rightarrow> int \<Rightarrow> string" where
  "substring s start end = take (nat end - nat start) (drop (nat start) s)"

text \<open>
  The last step of both variants:
  \<^verbatim>\<open>if (firstBrace >= 0 && lastBrace > firstBrace) repaired = repaired.substring(firstBrace, lastBrace + 1)\<close>.
\<close>

definition clipBraces :: "string \<Rightarrow> string" where
  "clipBraces repaired =
     (let firstBrace = indexOf repaired (CHR ''{'');
          lastBrace = lastIndexOf repaired (CHR ''}'')
      in if firstBrace \<ge> 0 \<and> lastBrace > firstBrace
         then substring repaired firstBrace (lastBrace + 1) else repaired)"

subsection \<open>The Azure script (\<^verbatim>\<open>analyze-codebase-azure.js\<close>)\<close>

text \<open>
  \<^verbatim>\<open>repaired.replace(/([^\\])\t/g, '$1\\t')\<close>: scanning from the left, every
  character other than a backslash that is followed by a TAB character is kept and the TAB
  becomes the two characters backslash, \<open>t\<close>; the search goes on after the match.
\<close>

fun replaceTabs :: "string \<Rightarrow> string" where
  "replaceTabs (c # d # rest) =
     (if c \<noteq> backslash \<and> d = TAB then c # backslash # CHR ''t'' # replaceTabs rest
      else c # replaceTabs (d # rest))"
| "replaceTabs s = s"

definition attemptJsonRepair_azure :: "string \<Rightarrow> string" where
  "attemptJsonRepair_azure jsonText = clipBraces (replaceTabs jsonText)"

subsection \<open>The Gemini batch script\<close>






subsection \<open>\<^verbatim>\<open>JSON.parse\<close>\<close>

text \<open>
  \<^verbatim>\<open>JSON.parse\<close> belongs to the JavaScript runtime, not to the scripts. The model
  follows the JSON grammar (ECMA-404) on texts of code units below 256: objects, arrays,
  strings with their escapes, numbers as exact rationals, and the three literals. An
  object is the list of its members in the order of the text. \<open>None\<close> is the
  \<^verbatim>\<open>SyntaxError\<close>; a \<^verbatim>\<open>\u\<close> escape of a code unit above 255 is outside the
  model and also gives \<open>None\<close>.
\<close>

datatype json =
  JNull
| JBool bool
| JNum rat
| JStr string
| JArr "json list"
| JObj "(string \<times> json) list"

definition isJsonSpace :: "char \<Rightarrow> bool" where
  "isJsonSpace c = (c = CHR 0x20 \<or> c = TAB \<or> c = LF \<or> c = CR)"

definition skipSpace :: "string \<Rightarrow> string" where
  "skipSpace s = dropWhile isJsonSpace s"

definition charCode :: "char \<Rightarrow> nat" where
  "charCode c = of_char c"

definition isDigit :: "char \<Rightarrow> bool" where
  "isDigit c = (charCode (CHR ''0'') \<le> charCode c \<and> charCode c \<le> charCode (CHR ''9''))"

definition digitsValue :: "string \<Rightarrow> nat" where
  "digitsValue ds = foldl (\<lambda>acc c. 10 * acc + (charCode c - charCode (CHR ''0''))) 0 ds"

definition hexValue :: "char \<Rightarrow> nat option" where
  "hexValue c =
     (if isDigit c then Some (charCode c - charCode (CHR ''0''))
      else if charCode (CHR ''a'') \<le> charCode c \<and> charCode c \<le> charCode (CHR ''f'')
        then Some (charCode c - charCode (CHR ''a'') + 10)
      else if charCode (CHR ''A'') \<le> charCode c \<and> charCode c \<le> charCode (CHR ''F'')
        then Some (charCode c - charCode (CHR ''A'') + 10)
      else None)"

definition unicodeEscape :: "char \<Rightarrow> char \<Rightarrow> char \<Rightarrow> char \<Rightarrow> char option" where
  "unicodeEscape h1 h2 h3 h4 =
     (case (hexValue h1, hexValue h2, hexValue h3, hexValue h4) of
        (Some a, Some b, Some c, Some d) \<Rightarrow>
          (let n = ((a * 16 + b) * 16 + c) * 16 + d in if n < 256 then Some (char_of n) else None)
      | _ \<Rightarrow> None)"

definition simpleEscape :: "char \<Rightarrow> char option" where
  "simpleEscape e =
     (if e = quote then Some quote
      else if e = backslash then Some backslash
      else if e = CHR ''/'' then Some (CHR ''/'')
      else if e = CHR ''b'' then Some (CHR 0x08)
      else if e = CHR ''f'' then Some (CHR 0x0C)
      else if e = CHR ''n'' then Some LF
      else if e = CHR ''r'' then Some CR
      else if e = CHR ''t'' then Some TAB
      else None)"

definition prepend :: "char \<Rightarrow> (string \<times> string) option \<Rightarrow> (string \<times> string) option" where
  "prepend c r = (case r of None \<Rightarrow> None | Some (str, rest) \<Rightarrow> Some (c # str, rest))"

text \<open>
  The characters of a string literal after its opening quote, up to the closing quote:
  the decoded string and the text after it. A control character (below 0x20) must be
  escaped.
\<close>

fun parseChars :: "string \<Rightarrow> (string \<times> string) option"
  and parseEscape :: "string \<Rightarrow> (string \<times> string) option" where
  "parseChars [] = None"
| "parseChars (c # cs) =
     (if c = quote then Some ([], cs)
      else if c = backslash then parseEscape cs
      else if charCode c < 0x20 then None
      else prepend c (parseChars cs))"
| "parseEscape [] = None"
| "parseEscape [e] = None"
| "parseEscape (e # h1 # rest) =
     (if e = CHR ''u'' then
        (case rest of
           h2 # h3 # h4 # rest' \<Rightarrow>
             (case unicodeEscape h1 h2 h3 h4 of
                None \<Rightarrow> None
              | Some c \<Rightarrow> prepend c (parseChars rest'))
         | _ \<Rightarrow> None)
      else (case simpleEscape e of
              None \<Rightarrow> None
            | Some c \<Rightarrow> prepend c (parseChars (h1 # rest))))"

text \<open>
  A number: an optional minus, the integer part (no leading zero before another digit),
  an optional fraction and an optional exponent.
\<close>

definition parseExponent :: "string \<Rightarrow> (int \<times> string) option" where
  "parseExponent s =
     (case s of
        [] \<Rightarrow> Some (0, s)
      | c # cs \<Rightarrow>
          if c = CHR ''e'' \<or> c = CHR ''E'' then
            (let (neg, ds) = (case cs of
                                [] \<Rightarrow> (False, cs)
                              | d # r \<Rightarrow> if d = CHR ''-'' then (True, r)
                                         else if d = CHR ''+'' then (False, r) else (False, cs));
                 es = takeWhile isDigit ds
             in if es = [] then None
                else Some ((if neg then - int (digitsValue es) else int (digitsValue es)),
                           dropWhile isDigit ds))
          else Some (0, s))"

definition parseFraction :: "string \<Rightarrow> (string \<times> string) option" where
  "parseFraction s =
     (case s of
        [] \<Rightarrow> Some ([], s)
      | c # cs \<Rightarrow>
          if c = CHR ''.'' then
            (let fs = takeWhile isDigit cs
             in if fs = [] then None else Some (fs, dropWhile isDigit cs))
          else Some ([], s))"

definition parseNumber :: "string \<Rightarrow> (rat \<times> string) option" where
  "parseNumber s =
     (let (neg, s1) = (case s of [] \<Rightarrow> (False, s)
                       | c # cs \<Rightarrow> if c = CHR ''-'' then (True, cs) else (False, s));
          ds = takeWhile isDigit s1
      in if ds = [] \<or> (length ds > 1 \<and> hd ds = CHR ''0'') then None
         else (case parseFraction (dropWhile isDigit s1) of
                 None \<Rightarrow> None
               | Some (fs, s2) \<Rightarrow>
                   (case parseExponent s2 of
                      None \<Rightarrow> None
                    | Some (ex, s3) \<Rightarrow>
                        (let mantissa = rat_of_nat (digitsValue (ds @ fs)) / 10 ^ length fs;
                             scaled = (if ex \<ge> 0 then mantissa * 10 ^ nat ex
                                       else mantissa / 10 ^ nat (- ex))
                         in Some ((if neg then - scaled else scaled), s3)))))"

definition literal :: "string \<Rightarrow> string \<Rightarrow> string option" where
  "literal w s = (if take (length w) s = w then Some (drop (length w) s) else None)"

text \<open>
  Values, object members and array elements. The first argument bounds the number of
  nested calls; \<open>JSON_parse\<close> starts with more than the length of the text.
\<close>

fun parseValue :: "nat \<Rightarrow> string \<Rightarrow> (json \<times> string) option"
  and parseMembers :: "nat \<Rightarrow> string \<Rightarrow> ((string \<times> json) list \<times> string) option"
  and parseElements :: "nat \<Rightarrow> string \<Rightarrow> (json list \<times> string) option" where
  "parseValue 0 s = None"
| "parseValue (Suc n) s =
     (case skipSpace s of
        [] \<Rightarrow> None
      | c # cs \<Rightarrow>
          if c = CHR ''{'' then
            (case skipSpace cs of
               [] \<Rightarrow> None
             | d # ds \<Rightarrow>
                 if d = CHR ''}'' then Some (JObj [], ds)
                 else (case parseMembers n (d # ds) of
                         None \<Rightarrow> None
                       | Some (ms, rest) \<Rightarrow> Some (JObj ms, rest)))
          else if c = CHR ''['' then
            (case skipSpace cs of
               [] \<Rightarrow> None
             | d # ds \<Rightarrow>
                 if d = CHR '']'' then Some (JArr [], ds)
                 else (case parseElements n (d # ds) of
                         None \<Rightarrow> None
                       | Some (vs, rest) \<Rightarrow> Some (JArr vs, rest)))
          else if c = quote then
            (case parseChars cs of
               None \<Rightarrow> None
             | Some (str, rest) \<Rightarrow> Some (JStr str, rest))
          else if c = CHR ''t'' then
            (case literal ''true'' (c # cs) of None \<Rightarrow> None | Some rest \<Rightarrow> Some (JBool True, rest))
          else if c = CHR ''f'' then
            (case literal ''false'' (c # cs) of None \<Rightarrow> None | Some rest \<Rightarrow> Some (JBool False, rest))
          else if c = CHR ''n'' then
            (case literal ''null'' (c # cs) of None \<Rightarrow> None | Some rest \<Rightarrow> Some (JNull, rest))
          else
            (case parseNumber (c # cs) of
               None \<Rightarrow> None
             | Some (x, rest) \<Rightarrow> Some (JNum x, rest)))"
| "parseMembers 0 s = None"
| "parseMembers (Suc n) s =
     (case s of
        [] \<Rightarrow> None
      | c # cs \<Rightarrow>
          if c = quote then
            (case parseChars cs of
               None \<Rightarrow> None
             | Some (key, r1) \<Rightarrow>
                 (case skipSpace r1 of
                    [] \<Rightarrow> None
                  | colon # r2 \<Rightarrow>
                      if colon = CHR '':'' then
                        (case parseValue n r2 of
                           None \<Rightarrow> None
                         | Some (v, r3) \<Rightarrow>
                             (case skipSpace r3 of
                                [] \<Rightarrow> None
                              | sep # r4 \<Rightarrow>
                                  if sep = CHR ''}'' then Some ([(key, v)], r4)
                                  else if sep = CHR '','' then
                                    (case parseMembers n (skipSpace r4) of
                                       None \<Rightarrow> None
                                     | Some (ms, rest) \<Rightarrow> Some ((key, v) # ms, rest))
                                  else None))
                      else None))
          else None)"
| "parseElements 0 s = None"
| "parseElements (Suc n) s =
     (case parseValue n s of
        None \<Rightarrow> None
      | Some (v, r1) \<Rightarrow>
          (case skipSpace r1 of
             [] \<Rightarrow> None
           | sep # r2 \<Rightarrow>
               if sep = CHR '']'' then Some ([v], r2)
               else if sep = CHR '','' then
                 (case parseElements n r2 of
                    None \<Rightarrow> None
                  | Some (vs, rest) \<Rightarrow> Some (v # vs, rest))
               else None))"

definition JSON_parse :: "string \<Rightarrow> json option" where
  "JSON_parse text =
     (case parseValue (Suc (length text)) text of
        None \<Rightarrow> None
      | Some (v, rest) \<Rightarrow> if skipSpace rest = [] then Some v else None)"

text \<open>
  The two parsing attempts of \<^verbatim>\<open>analyzeBatch\<close>:
  \<^verbatim>\<open>try { JSON.parse(jsonText) } catch { JSON.parse(attemptJsonRepair(jsonText)) }\<close>;
  \<open>None\<close> is the error thrown when the second attempt fails too.
\<close>

definition parseWithRepair :: "(string \<Rightarrow> string) \<Rightarrow> string \<Rightarrow> json option" where
  "parseWithRepair attemptJsonRepair jsonText =
     (case JSON_parse jsonText of
        Some analysisResult \<Rightarrow> Some analysisResult
      | None \<Rightarrow> JSON_parse (attemptJsonRepair jsonText))"

section \<open>The batch record\<close>

text \<open>
  The record the remote service is asked for, as the prompt of
  \<^verbatim>\<open>analyzeBatch\<close> lays it out. The service may leave any part out, and the scripts
  read the parts through \<^verbatim>\<open>?.\<close>, \<^verbatim>\<open>||\<close> and \<^verbatim>\<open>!\<close>; a part is therefore
  an option, \<open>None\<close> standing for a property that is missing or \<^verbatim>\<open>null\<close>. Scores
  and counts are numbers: exact rationals and naturals here, doubles in the scripts.
\<close>

record CategoryGrade =
  score :: "rat option"
  weight :: "rat option"
  positive_points :: "string list option"
  negative_points :: "string list option"
  observations :: "string option"

record OverallGrade =
  weighted_score :: "rat option"
  final_grade :: "string option"
  summary :: "string option"

record Grades =
  architecture :: "CategoryGrade option"
  code_quality :: "CategoryGrade option"
  validations :: "CategoryGrade option"
  error_handling :: "CategoryGrade option"
  overall :: "OverallGrade option"

record ProjectSummary =
  project_name :: "string option"
  total_files :: "nat option"
  total_classes :: "nat option"
  analysis_date :: "string option"
  project_type :: "string option"
  batches_processed :: "nat option"

record Problem =
  title :: string
  description :: string
  severity :: string
  occurrences :: nat
  affected_files :: "string list"

text \<open>
  An entry of \<^verbatim>\<open>top_issues\<close>; its properties \<^verbatim>\<open>file\<close> and \<^verbatim>\<open>method\<close> are
  \<open>issue_file\<close> and \<open>issue_method\<close> here.
\<close>

record Issue =
  issue_file :: string
  class_name :: string
  issue_method :: string
  issue :: string
  suggestion :: string

record Recommendation =
  category :: string
  priority :: string
  description :: string
  impact :: string

record TokenUsage =
  prompt_tokens :: nat
  completion_tokens :: nat
  total_tokens :: nat

record BatchResult =
  project_summary :: "ProjectSummary option"
  grades :: "Grades option"
  common_problems :: "Problem list option"
  top_issues :: "Issue list option"
  recommendations :: "Recommendation list option"
  token_usage :: "TokenUsage option"
  actual_batch_size :: "nat option"

text \<open>The usage counters of the remote response, each possibly missing.\<close>

record Usage =
  promptTokens :: "nat option"
  completionTokens :: "nat option"
  totalTokens :: "nat option"

section \<open>The schema check of \<open>analyzeBatch\<close>\<close>

datatype analyze_error = MissingRequiredFields

text \<open>\<^verbatim>\<open>x || 0\<close> on a count that may be missing.\<close>

definition orZero :: "nat option \<Rightarrow> nat" where
  "orZero x = (case x of None \<Rightarrow> 0 | Some n \<Rightarrow> n)"

text \<open>
  What \<^verbatim>\<open>analyzeBatch\<close> does with the parsed record:
  \<^verbatim>\<open>if (!analysisResult.project_summary || !analysisResult.grades) throw new Error('Parsed
  JSON missing required fields (project_summary or grades)')\<close>, then the token usage of
  the response and \<^verbatim>\<open>_actual_batch_size = fileContents.length\<close> are attached.
\<close>

definition analyzeBatch_finish ::
  "BatchResult \<Rightarrow> Usage option \<Rightarrow> SourceItem list \<Rightarrow> analyze_error + BatchResult" where
  "analyzeBatch_finish analysisResult usage fileContents =
     (if project_summary analysisResult = None \<or> grades analysisResult = None
      then Inl MissingRequiredFields
      else Inr (analysisResult
             \<lparr>token_usage := Some
                \<lparr>prompt_tokens = orZero (case usage of None \<Rightarrow> None | Some u \<Rightarrow> promptTokens u),
                 completion_tokens = orZero (case usage of None \<Rightarrow> None | Some u \<Rightarrow> completionTokens u),
                 total_tokens = orZero (case usage of None \<Rightarrow> None | Some u \<Rightarrow> totalTokens u)\<rparr>,
              actual_batch_size := Some (length fileContents)\<rparr>))"

section \<open>Aggregation: \<open>getValidBaseBatch\<close> and \<open>aggregateResults\<close>\<close>

datatype aggregate_error = NoValidBatchResults

text \<open>The structure test inside the loop of \<^verbatim>\<open>getValidBaseBatch\<close>.\<close>

definition hasRequiredStructure :: "BatchResult \<Rightarrow> bool" where
  "hasRequiredStructure batch =
     (project_summary batch \<noteq> None \<and>
      (case grades batch of
         None \<Rightarrow> False
       | Some g \<Rightarrow> architecture g \<noteq> None \<and> code_quality g \<noteq> None \<and> validations g \<noteq> None \<and>
                  error_handling g \<noteq> None \<and> overall g \<noteq> None))"

fun getValidBaseBatch :: "BatchResult list \<Rightarrow> aggregate_error + BatchResult" where
  "getValidBaseBatch [] = Inl NoValidBatchResults"
| "getValidBaseBatch (batch # rest) =
     (if hasRequiredStructure batch then Inr batch else getValidBaseBatch rest)"

text \<open>
  \<^verbatim>\<open>const categories = ['architecture', 'code_quality', 'validations', 'error_handling']\<close>
  and the read \<^verbatim>\<open>grades[category]\<close>.
\<close>

datatype Category = Architecture | CodeQuality | Validations | ErrorHandling

definition categories :: "Category list" where
  "categories = [Architecture, CodeQuality, Validations, ErrorHandling]"

fun gradeOf :: "Category \<Rightarrow> Grades \<Rightarrow> CategoryGrade option" where
  "gradeOf Architecture g = architecture g"
| "gradeOf CodeQuality g = code_quality g"
| "gradeOf Validations g = validations g"
| "gradeOf ErrorHandling g = error_handling g"

text \<open>\<^verbatim>\<open>batch.grades?.[category]\<close>\<close>

definition batchGrade :: "Category \<Rightarrow> BatchResult \<Rightarrow> CategoryGrade option" where
  "batchGrade c batch = (case grades batch of None \<Rightarrow> None | Some g \<Rightarrow> gradeOf c g)"

text \<open>\<^verbatim>\<open>const filesInBatch = batch._actual_batch_size || 1\<close>\<close>

definition filesInBatch :: "BatchResult \<Rightarrow> nat" where
  "filesInBatch batch =
     (case actual_batch_size batch of None \<Rightarrow> 1 | Some n \<Rightarrow> if n = 0 then 1 else n)"

text \<open>\<^verbatim>\<open>const score = batch.grades?.[category]?.score || 0\<close>\<close>

definition batchScore :: "Category \<Rightarrow> BatchResult \<Rightarrow> rat" where
  "batchScore c batch =
     (case batchGrade c batch of
        None \<Rightarrow> 0
      | Some cg \<Rightarrow> (case score cg of None \<Rightarrow> 0 | Some x \<Rightarrow> if x = 0 then 0 else x))"

text \<open>
  The accumulation \<^verbatim>\<open>weightedSum += score * filesInBatch; totalWeight +=
  filesInBatch\<close> over \<^verbatim>\<open>batchResults.forEach\<close>.
\<close>

definition categoryTotals :: "Category \<Rightarrow> BatchResult list \<Rightarrow> rat \<times> nat" where
  "categoryTotals c batchResults =
     foldl (\<lambda>(weightedSum, totalWeight) batch.
              (weightedSum + batchScore c batch * rat_of_nat (filesInBatch batch),
               totalWeight + filesInBatch batch))
           (0, 0) batchResults"

text \<open>\<^verbatim>\<open>Math.round\<close> rounds to the nearest integer, a half upwards.\<close>

definition Math_round :: "rat \<Rightarrow> int" where
  "Math_round x = \<lfloor>x + 1 / 2\<rfloor>"

text \<open>
  \<^verbatim>\<open>totalWeight > 0 ? Math.round((weightedSum / totalWeight) * 10) / 10 : 0\<close>
\<close>

definition categoryScore :: "Category \<Rightarrow> BatchResult list \<Rightarrow> rat" where
  "categoryScore c batchResults =
     (case categoryTotals c batchResults of
        (weightedSum, totalWeight) \<Rightarrow>
          if totalWeight > 0
          then rat_of_int (Math_round ((weightedSum / rat_of_nat totalWeight) * 10)) / 10
          else 0)"

text \<open>
  A JavaScript \<^verbatim>\<open>Set\<close> keeps its elements in insertion order, and \<^verbatim>\<open>add\<close> of an
  element it has leaves it as it is.
\<close>

definition setAdd :: "'a list \<Rightarrow> 'a \<Rightarrow> 'a list" where
  "setAdd xs x = (if x \<in> set xs then xs else xs @ [x])"

definition setFrom :: "'a list \<Rightarrow> 'a list" where
  "setFrom xs = foldl setAdd [] xs"

text \<open>\<^verbatim>\<open>strings.join(' ')\<close>\<close>

fun joinSpace :: "string list \<Rightarrow> string" where
  "joinSpace [] = []"
| "joinSpace [x] = x"
| "joinSpace (x # y # rest) = x @ '' '' @ joinSpace (y # rest)"

definition allPoints ::
  "(CategoryGrade \<Rightarrow> string list option) \<Rightarrow> Category \<Rightarrow> BatchResult list \<Rightarrow> string list" where
  "allPoints points c batchResults =
     setFrom (concat (map (\<lambda>batch. case batchGrade c batch of
                                      None \<Rightarrow> []
                                    | Some cg \<Rightarrow> (case points cg of None \<Rightarrow> [] | Some ps \<Rightarrow> ps))
                          batchResults))"

definition allObservations :: "Category \<Rightarrow> BatchResult list \<Rightarrow> string" where
  "allObservations c batchResults =
     joinSpace (concat (map (\<lambda>b. case batchGrade c b of
                                    None \<Rightarrow> []
                                  | Some cg \<Rightarrow> (case observations cg of
                                                 None \<Rightarrow> []
                                               | Some ob \<Rightarrow> if ob = [] then [] else [ob]))
                            batchResults))"

text \<open>The body of \<^verbatim>\<open>categories.forEach(category => ...)\<close> on one category grade.\<close>

definition aggregateCategory :: "Category \<Rightarrow> BatchResult list \<Rightarrow> CategoryGrade \<Rightarrow> CategoryGrade" where
  "aggregateCategory c batchResults cg =
     cg\<lparr>score := Some (categoryScore c batchResults),
        positive_points := Some (allPoints positive_points c batchResults),
        negative_points := Some (allPoints negative_points c batchResults),
        observations := Some (allObservations c batchResults)\<rparr>"

text \<open>
  The overall score reads the four scores just stored:
  \<^verbatim>\<open>architecture.score * 0.25 + code_quality.score * 0.30 + validations.score * 0.25 +
  error_handling.score * 0.20\<close>.
\<close>

definition computeOverallScore :: "BatchResult list \<Rightarrow> rat" where
  "computeOverallScore batchResults =
     categoryScore Architecture batchResults * (25 / 100) +
     categoryScore CodeQuality batchResults * (30 / 100) +
     categoryScore Validations batchResults * (25 / 100) +
     categoryScore ErrorHandling batchResults * (20 / 100)"

definition gradeLetter :: "rat \<Rightarrow> string" where
  "gradeLetter overallScore =
     (if overallScore \<ge> 9 then ''A''
      else if overallScore \<ge> 7 then ''B''
      else if overallScore \<ge> 5 then ''C''
      else if overallScore \<ge> 3 then ''D''
      else ''F'')"

definition aggregateOverall :: "BatchResult list \<Rightarrow> OverallGrade \<Rightarrow> OverallGrade" where
  "aggregateOverall batchResults ov =
     (let overallScore = computeOverallScore batchResults in
      ov\<lparr>weighted_score := Some (rat_of_int (Math_round (overallScore * 10)) / 10),
         final_grade := Some (gradeLetter overallScore)\<rparr>)"

definition aggregateGrades :: "BatchResult list \<Rightarrow> Grades \<Rightarrow> Grades" where
  "aggregateGrades batchResults g =
     g\<lparr>architecture := map_option (aggregateCategory Architecture batchResults) (architecture g),
       code_quality := map_option (aggregateCategory CodeQuality batchResults) (code_quality g),
       validations := map_option (aggregateCategory Validations batchResults) (validations g),
       error_handling := map_option (aggregateCategory ErrorHandling batchResults) (error_handling g),
       overall := map_option (aggregateOverall batchResults) (overall g)\<rparr>"

text \<open>
  \<^verbatim>\<open>problemsMap\<close>: a \<^verbatim>\<open>Map\<close> from title to problem, in insertion order. A title
  already there adds \<^verbatim>\<open>problem.occurrences || 1\<close> and merges the affected files
  through a \<^verbatim>\<open>Set\<close>; a new title stores a copy of the problem.
\<close>

fun mergeProblem :: "Problem list \<Rightarrow> Problem \<Rightarrow> Problem list" where
  "mergeProblem [] problem = [problem]"
| "mergeProblem (existing # rest) problem =
     (if title existing = title problem
      then existing\<lparr>occurrences := occurrences existing +
                        (if occurrences problem = 0 then 1 else occurrences problem),
                    affected_files := setFrom (affected_files existing @ affected_files problem)\<rparr>
           # rest
      else existing # mergeProblem rest problem)"

definition mergedProblems :: "BatchResult list \<Rightarrow> Problem list" where
  "mergedProblems batchResults =
     sort_key (\<lambda>p. - int (occurrences p))
       (foldl mergeProblem []
          (concat (map (\<lambda>batch. case common_problems batch of None \<Rightarrow> [] | Some ps \<Rightarrow> ps)
                       batchResults)))"

definition allTopIssues :: "BatchResult list \<Rightarrow> Issue list" where
  "allTopIssues batchResults =
     take 20 (concat (map (\<lambda>batch. case top_issues batch of None \<Rightarrow> [] | Some xs \<Rightarrow> xs)
                          batchResults))"

definition addRecommendation :: "Recommendation list \<Rightarrow> Recommendation \<Rightarrow> Recommendation list" where
  "addRecommendation recs r =
     (if Recommendation.description r \<in> set (map Recommendation.description recs)
      then recs else recs @ [r])"

definition mergedRecommendations :: "BatchResult list \<Rightarrow> Recommendation list" where
  "mergedRecommendations batchResults =
     foldl addRecommendation []
       (concat (map (\<lambda>batch. case recommendations batch of None \<Rightarrow> [] | Some rs \<Rightarrow> rs)
                    batchResults))"

definition totalClasses :: "BatchResult list \<Rightarrow> nat" where
  "totalClasses batchResults =
     foldl (\<lambda>total batch.
              total + orZero (case project_summary batch of
                                None \<Rightarrow> None | Some ps \<Rightarrow> total_classes ps))
           0 batchResults"

definition aggregateResults ::
  "BatchResult list \<Rightarrow> nat \<Rightarrow> nat \<Rightarrow> aggregate_error + BatchResult" where
  "aggregateResults batchResults totalFiles totalBatches =
     (case getValidBaseBatch batchResults of
        Inl e \<Rightarrow> Inl e
      | Inr baseBatch \<Rightarrow>
          Inr (baseBatch
            \<lparr>project_summary :=
               map_option (\<lambda>ps. ps\<lparr>total_files := Some totalFiles,
                                      batches_processed := Some totalBatches,
                                      total_classes := Some (totalClasses batchResults)\<rparr>)
                 (project_summary baseBatch),
             grades := map_option (aggregateGrades batchResults) (grades baseBatch),
             common_problems := Some (mergedProblems batchResults),
             top_issues := Some (allTopIssues batchResults),
             recommendations := Some (mergedRecommendations batchResults),
             actual_batch_size := None\<rparr>))"

section \<open>Cost estimate: \<open>calculateCost\<close>\<close>

text \<open>
  A JavaScript number that comes out of the cost arithmetic: a number, exact here, or
  \<^verbatim>\<open>NaN\<close>, which is what a product with \<^verbatim>\<open>undefined\<close> gives and what every sum
  with \<^verbatim>\<open>NaN\<close> stays.
\<close>

datatype jsnum = Num rat | NaN

text \<open>\<^verbatim>\<open>x * rate\<close> where \<open>rate\<close> was read from a property that may be missing.\<close>

definition timesRate :: "rat \<Rightarrow> rat option \<Rightarrow> jsnum" where
  "timesRate x rate = (case rate of None \<Rightarrow> NaN | Some r \<Rightarrow> Num (x * r))"

fun plus_jsnum :: "jsnum \<Rightarrow> jsnum \<Rightarrow> jsnum" where
  "plus_jsnum (Num a) (Num b) = Num (a + b)"
| "plus_jsnum a b = NaN"

record Cost =
  input_cost_usd :: jsnum
  output_cost_usd :: jsnum
  total_cost_usd :: jsnum
  model :: string

subsection \<open>The Gemini batch script\<close>

text \<open>
  An entry of the \<^verbatim>\<open>PRICING\<close> table: the flat entry has \<^verbatim>\<open>input\<close> and
  \<^verbatim>\<open>output\<close>, the tiered one the four \<^verbatim>\<open>..._200k\<close> rates; reading a property an
  entry does not have gives \<^verbatim>\<open>undefined\<close>, here \<open>None\<close>. The properties
  \<^verbatim>\<open>input\<close> and \<^verbatim>\<open>output\<close> are \<open>input_rate\<close> and \<open>output_rate\<close> here.
\<close>

record Pricing =
  input_rate :: "rat option"
  output_rate :: "rat option"
  input_under_200k :: "rat option"
  input_over_200k :: "rat option"
  output_under_200k :: "rat option"
  output_over_200k :: "rat option"

definition PRICING_flash :: Pricing where
  "PRICING_flash = \<lparr>input_rate = Some (30 / 100), output_rate = Some (250 / 100),
     input_under_200k = None, input_over_200k = None,
     output_under_200k = None, output_over_200k = None\<rparr>"

definition PRICING_pro :: Pricing where
  "PRICING_pro = \<lparr>input_rate = None, output_rate = None,
     input_under_200k = Some (125 / 100), input_over_200k = Some (250 / 100),
     output_under_200k = Some 10, output_over_200k = Some 15\<rparr>"

text \<open>\<^verbatim>\<open>PRICING[modelName]\<close>; \<open>None\<close> for a name the table does not have.\<close>

definition PRICING :: "string \<Rightarrow> Pricing option" where
  "PRICING modelName =
     (if modelName = ''gemini-2.5-flash'' then Some PRICING_flash
      else if modelName = ''gemini-2.5-pro'' then Some PRICING_pro
      else None)"

definition calculateCost_gemini :: "TokenUsage \<Rightarrow> string \<Rightarrow> Cost" where
  "calculateCost_gemini tokenUsage modelName =
     (let pricing = (case PRICING modelName of Some p \<Rightarrow> p | None \<Rightarrow> PRICING_flash);
          (inputRate, outputRate) =
            (if modelName = ''gemini-2.5-flash'' then (input_rate pricing, output_rate pricing)
             else
               (let promptThreshold = 200000 in
                ((if prompt_tokens tokenUsage > promptThreshold
                  then input_over_200k pricing else input_under_200k pricing),
                 (if completion_tokens tokenUsage > promptThreshold
                  then output_over_200k pricing else output_under_200k pricing))));
          inputCost = timesRate (rat_of_nat (prompt_tokens tokenUsage) / 1000000) inputRate;
          outputCost = timesRate (rat_of_nat (completion_tokens tokenUsage) / 1000000) outputRate;
          totalCost = plus_jsnum inputCost outputCost
      in \<lparr>input_cost_usd = inputCost, output_cost_usd = outputCost,
          total_cost_usd = totalCost, model = modelName\<rparr>)"

subsection \<open>The Azure script\<close>

definition calculateCost_azure :: "TokenUsage \<Rightarrow> string \<Rightarrow> Cost" where
  "calculateCost_azure tokenUsage modelName =
     (let inputCost = Num ((rat_of_nat (prompt_tokens tokenUsage) / 1000000) * (15 / 100));
          outputCost = Num ((rat_of_nat (completion_tokens tokenUsage) / 1000000) * (60 / 100));
          totalCost = plus_jsnum inputCost outputCost
      in \<lparr>input_cost_usd = inputCost, output_cost_usd = outputCost,
          total_cost_usd = totalCost, model = ''GPT-4o-mini (Azure)''\<rparr>)"

section \<open>Notions the properties are stated with\<close>

subsection \<open>Batch planning\<close>

text \<open>
  The invariant of the loop of \<open>createBatches\<close> behind the placement of oversized items:
  the running estimate is the sum over the running batch, and a batch that holds an item
  above the budget holds nothing else.
\<close>

definition aloneInv :: "Config \<Rightarrow> batch list \<times> batch \<times> nat \<Rightarrow> bool" where
  "aloneInv cfg st =
     (case st of (batches, currentBatch, currentTokenEstimate) \<Rightarrow>
        currentTokenEstimate = sum_list (map (\<lambda>f. estimateTokens (content f)) currentBatch) \<and>
        list_all (\<lambda>b. list_all (\<lambda>f. MAX_INPUT_TOKENS cfg < estimateTokens (content f) \<longrightarrow> b = [f]) b)
          (batches @ [currentBatch]))"

subsection \<open>Retry policy\<close>

text \<open>
  The policy as the specification words it: attempt \<open>k\<close> of \<open>N\<close> is an invocation, and
  a failed attempt \<open>k < N\<close> is followed by a wait of
  \<open>baseDelay * backoffFactor ^ (k - 1)\<close>.
\<close>

definition policyTrace :: "Config \<Rightarrow> event list" where
  "policyTrace cfg =
     concat (map (\<lambda>k. Invoke k #
                     (if k < RETRY_ATTEMPTS cfg
                      then [Sleep (RETRY_DELAY_MS cfg * RETRY_BACKOFF cfg ^ (k - 1))] else []))
                 [1..<RETRY_ATTEMPTS cfg + 1])"

text \<open>The world after \<open>n\<close> invocations, and the error of invocation \<open>n + 1\<close>.\<close>

definition worldAfter :: "('w, 'e, 'r) submit \<Rightarrow> nat \<Rightarrow> 'w \<Rightarrow> 'w" where
  "worldAfter analyzeBatch n w = ((\<lambda>w. snd (analyzeBatch w)) ^^ n) w"

definition alwaysFails :: "('w, 'e, 'r) submit \<Rightarrow> bool" where
  "alwaysFails analyzeBatch = (\<forall>w. isl (fst (analyzeBatch w)))"

definition errorOf :: "('w, 'e, 'r) submit \<Rightarrow> 'w \<Rightarrow> 'e" where
  "errorOf analyzeBatch w = projl (fst (analyzeBatch w))"

subsection \<open>Partition of the batches\<close>




subsection \<open>Texts the repair leaves alone\<close>



subsection \<open>Weighted mean and rounding\<close>

text \<open>
  The specification's \<open>weightedMean = \<Sum>(score\<^sub>i * weight\<^sub>i) / \<Sum>(weight\<^sub>i)\<close> with the
  weight of a batch its actual size, 1 when that is missing or zero, and its rounding to
  one decimal place.
\<close>

definition weightedMean :: "Category \<Rightarrow> BatchResult list \<Rightarrow> rat" where
  "weightedMean c batchResults =
     (\<Sum>b\<leftarrow>batchResults. batchScore c b * rat_of_nat (filesInBatch b)) /
     (\<Sum>b\<leftarrow>batchResults. rat_of_nat (filesInBatch b))"

definition roundToOneDecimal :: "rat \<Rightarrow> rat" where
  "roundToOneDecimal x = rat_of_int \<lfloor>x * 10 + 1 / 2\<rfloor> / 10"


definition reportedOverall :: "aggregate_error + BatchResult \<Rightarrow> OverallGrade option" where
  "reportedOverall res =
     (case res of
        Inl e \<Rightarrow> None
      | Inr aggregated \<Rightarrow> (case grades aggregated of None \<Rightarrow> None | Some g \<Rightarrow> overall g))"


subsection \<open>Example records\<close>

text \<open>
  Batch records for the concrete cases: a complete one with the four category scores and
  the actual batch size given (its own overall grade is 0 and F), and one that has a
  summary and a grades section without any sub-section.
\<close>

definition exampleGrade :: "rat \<Rightarrow> CategoryGrade" where
  "exampleGrade s = \<lparr>score = Some s, weight = None, positive_points = None,
     negative_points = None, observations = None\<rparr>"

definition exampleSummary :: ProjectSummary where
  "exampleSummary = \<lparr>project_name = Some ''demo'', total_files = None, total_classes = None,
     analysis_date = None, project_type = None, batches_processed = None\<rparr>"

definition exampleBatch :: "rat \<Rightarrow> rat \<Rightarrow> rat \<Rightarrow> rat \<Rightarrow> nat \<Rightarrow> BatchResult" where
  "exampleBatch a q v e n =
     \<lparr>project_summary = Some exampleSummary,
      grades = Some \<lparr>architecture = Some (exampleGrade a), code_quality = Some (exampleGrade q),
                     validations = Some (exampleGrade v), error_handling = Some (exampleGrade e),
                     overall = Some \<lparr>weighted_score = Some 0, final_grade = Some ''F'',
                                     summary = None\<rparr>\<rparr>,
      common_problems = None, top_issues = None, recommendations = None,
      token_usage = None, actual_batch_size = Some n\<rparr>"


section \<open>Properties of batch planning\<close>

lemma estimateTokens_eq: "estimateTokens t = (length t + 3) div 4"
proof -
  have "\<lceil>rat_of_nat (length t) / 4\<rceil> = - (- int (length t) div 4)"
    using ceiling_divide_eq_div[of "int (length t)" 4, where ?'a = rat] by simp
  moreover have "- (- int (length t) div 4) = int ((length t + 3) div 4)"
    by (simp add: zdiv_int)
  ultimately show ?thesis unfolding estimateTokens_def by simp
qed

lemma createBatches_step_concat:
  "createBatches_step cfg B (bs, cur, tok) f = (bs', cur', tok') \<Longrightarrow>
   concat bs' @ cur' = concat bs @ cur @ [f]"
  by (auto simp: createBatches_step_def Let_def split: if_splits)

lemma createBatches_loop_concat:
  "createBatches_loop cfg B (bs, cur, tok) fs = (bs', cur', tok') \<Longrightarrow>
   concat bs' @ cur' = concat bs @ cur @ fs"
proof (induction fs arbitrary: bs cur tok)
  case Nil
  then show ?case by simp
next
  case (Cons f fs)
  obtain b1 c1 t1 where s: "createBatches_step cfg B (bs, cur, tok) f = (b1, c1, t1)"
    by (cases "createBatches_step cfg B (bs, cur, tok) f") auto
  from Cons.prems s have "createBatches_loop cfg B (b1, c1, t1) fs = (bs', cur', tok')"
    by simp
  from Cons.IH[OF this] createBatches_step_concat[OF s] show ?case by simp
qed

lemma createBatches_concat: "concat (createBatches cfg fs B) = fs"
proof -
  obtain bs cur tok where l: "createBatches_loop cfg B ([], [], 0) fs = (bs, cur, tok)"
    by (cases "createBatches_loop cfg B ([], [], 0) fs") auto
  from createBatches_loop_concat[OF l] have "concat bs @ cur = fs" by simp
  with l show ?thesis by (auto simp: createBatches_def)
qed

lemma createBatches_step_sizes:
  "createBatches_step cfg B (bs, cur, tok) f = (bs', cur', tok') \<Longrightarrow> 1 \<le> B \<Longrightarrow>
   \<forall>b\<in>set bs. length b \<le> B \<Longrightarrow> length cur \<le> B \<Longrightarrow>
   (\<forall>b\<in>set bs'. length b \<le> B) \<and> length cur' \<le> B"
  by (auto simp: createBatches_step_def Let_def split: if_splits)

lemma createBatches_loop_sizes:
  "createBatches_loop cfg B (bs, cur, tok) fs = (bs', cur', tok') \<Longrightarrow> 1 \<le> B \<Longrightarrow>
   \<forall>b\<in>set bs. length b \<le> B \<Longrightarrow> length cur \<le> B \<Longrightarrow>
   (\<forall>b\<in>set bs'. length b \<le> B) \<and> length cur' \<le> B"
proof (induction fs arbitrary: bs cur tok)
  case Nil
  then show ?case by simp
next
  case (Cons f fs)
  obtain b1 c1 t1 where s: "createBatches_step cfg B (bs, cur, tok) f = (b1, c1, t1)"
    by (cases "createBatches_step cfg B (bs, cur, tok) f") auto
  from Cons.prems(1) s have l: "createBatches_loop cfg B (b1, c1, t1) fs = (bs', cur', tok')"
    by simp
  from createBatches_step_sizes[OF s Cons.prems(2) Cons.prems(3) Cons.prems(4)]
  have "\<forall>b\<in>set b1. length b \<le> B" "length c1 \<le> B" by auto
  from Cons.IH[OF l Cons.prems(2) this] show ?case .
qed

lemma createBatches_sizes:
  assumes "1 \<le> B" "b \<in> set (createBatches cfg fs B)"
  shows "length b \<le> B"
proof -
  obtain bs cur tok where l: "createBatches_loop cfg B ([], [], 0) fs = (bs, cur, tok)"
    by (cases "createBatches_loop cfg B ([], [], 0) fs") auto
  from createBatches_loop_sizes[OF l assms(1)]
  have "(\<forall>b\<in>set bs. length b \<le> B) \<and> length cur \<le> B" by simp
  with l assms(2) show ?thesis by (auto simp: createBatches_def split: if_splits)
qed

lemma length_concat_sum: "length (concat xss) = sum_list (map length xss)"
  by (induction xss) auto

text \<open>
  Claim C3, as amended. For every list of items, every token budget and every
  \<open>batchSize\<close>, \<open>createBatches\<close> drops no item and keeps the order: the batches
  concatenated in batch order are the input, so their sizes add up to its length. For
  every \<open>batchSize\<close> of at least 1, every batch has at most \<open>batchSize\<close> items.
\<close>

theorem createBatches_partition:
  "concat (createBatches cfg fileContents batchSize) = fileContents \<and>
   sum_list (map length (createBatches cfg fileContents batchSize)) = length fileContents \<and>
   (1 \<le> batchSize \<longrightarrow>
      (\<forall>b\<in>set (createBatches cfg fileContents batchSize). length b \<le> batchSize))"
proof -
  have c: "concat (createBatches cfg fileContents batchSize) = fileContents"
    by (rule createBatches_concat)
  have "sum_list (map length (createBatches cfg fileContents batchSize)) =
        length (concat (createBatches cfg fileContents batchSize))"
    by (simp add: length_concat_sum)
  with c have s: "sum_list (map length (createBatches cfg fileContents batchSize)) =
        length fileContents" by simp
  from c s createBatches_sizes show ?thesis by blast
qed

theorem createBatches_partition_witness:
  "(1::nat) \<le> 2 \<and>
   createBatches CONFIG_azure
     [\<lparr>path = ''a'', name = ''a'', content = ''x''\<rparr>,
      \<lparr>path = ''b'', name = ''b'', content = ''y''\<rparr>,
      \<lparr>path = ''c'', name = ''c'', content = ''z''\<rparr>] 2 =
     [[\<lparr>path = ''a'', name = ''a'', content = ''x''\<rparr>,
       \<lparr>path = ''b'', name = ''b'', content = ''y''\<rparr>],
      [\<lparr>path = ''c'', name = ''c'', content = ''z''\<rparr>]] \<and>
   list_all (\<lambda>b. length b \<le> 2) (createBatches CONFIG_azure
     [\<lparr>path = ''a'', name = ''a'', content = ''x''\<rparr>,
      \<lparr>path = ''b'', name = ''b'', content = ''y''\<rparr>,
      \<lparr>path = ''c'', name = ''c'', content = ''z''\<rparr>] 2)"
proof -
  have h: "(1::nat) \<le> 2" by simp
  have ev: "createBatches CONFIG_azure
     [\<lparr>path = ''a'', name = ''a'', content = ''x''\<rparr>,
      \<lparr>path = ''b'', name = ''b'', content = ''y''\<rparr>,
      \<lparr>path = ''c'', name = ''c'', content = ''z''\<rparr>] 2 =
     [[\<lparr>path = ''a'', name = ''a'', content = ''x''\<rparr>,
       \<lparr>path = ''b'', name = ''b'', content = ''y''\<rparr>],
      [\<lparr>path = ''c'', name = ''c'', content = ''z''\<rparr>]]"
    by (simp add: createBatches_def createBatches_step_def estimateTokens_eq CONFIG_azure_def)
  from h createBatches_partition [of CONFIG_azure
     "[\<lparr>path = ''a'', name = ''a'', content = ''x''\<rparr>,
      \<lparr>path = ''b'', name = ''b'', content = ''y''\<rparr>,
      \<lparr>path = ''c'', name = ''c'', content = ''z''\<rparr>]" 2]
  have "\<forall>b\<in>set (createBatches CONFIG_azure
     [\<lparr>path = ''a'', name = ''a'', content = ''x''\<rparr>,
      \<lparr>path = ''b'', name = ''b'', content = ''y''\<rparr>,
      \<lparr>path = ''c'', name = ''c'', content = ''z''\<rparr>] 2). length b \<le> 2"
    by blast
  then have "list_all (\<lambda>b. length b \<le> 2) (createBatches CONFIG_azure
     [\<lparr>path = ''a'', name = ''a'', content = ''x''\<rparr>,
      \<lparr>path = ''b'', name = ''b'', content = ''y''\<rparr>,
      \<lparr>path = ''c'', name = ''c'', content = ''z''\<rparr>] 2)"
    unfolding list_all_iff .
  with h ev show ?thesis by blast
qed

text \<open>
  Claim C3 as it is worded fails at \<open>batchSize = 0\<close>: the size test
  \<^verbatim>\<open>currentBatch.length >= batchSize\<close> holds before the first item, an empty batch is
  pushed, and the item then makes a batch of one, more than \<open>batchSize\<close>.
\<close>

theorem createBatches_zero_batchSize_counterexample:
  "createBatches CONFIG_azure [\<lparr>path = ''a'', name = ''a'', content = ''x''\<rparr>] 0 =
     [[], [\<lparr>path = ''a'', name = ''a'', content = ''x''\<rparr>]] \<and>
   \<not> length [\<lparr>path = ''a'', name = ''a'', content = ''x''\<rparr>] \<le> (0::nat)"
  by (simp add: createBatches_def createBatches_step_def estimateTokens_eq CONFIG_azure_def)

lemma member_le_sum_tokens:
  "f \<in> set cur \<Longrightarrow>
   estimateTokens (content f) \<le> sum_list (map (\<lambda>f. estimateTokens (content f)) cur)"
  by (induction cur) auto

lemma createBatches_step_alone:
  assumes "aloneInv cfg st"
  shows "aloneInv cfg (createBatches_step cfg B st f)"
proof -
  obtain bs cur tok where st: "st = (bs, cur, tok)" by (cases st) auto
  let ?M = "MAX_INPUT_TOKENS cfg"
  show ?thesis
  proof (cases "length cur \<ge> B \<or> (tok + estimateTokens (content f) > ?M \<and> length cur > 0)")
    case True
    then have "createBatches_step cfg B st f = (bs @ [cur], [f], estimateTokens (content f))"
      by (simp add: st createBatches_step_def)
    with assms st show ?thesis by (auto simp: aloneInv_def)
  next
    case False
    then have s: "createBatches_step cfg B st f = (bs, cur @ [f], tok + estimateTokens (content f))"
      by (auto simp: st createBatches_step_def Let_def)
    show ?thesis
    proof (cases "cur = []")
      case True
      with assms st s show ?thesis by (auto simp: aloneInv_def)
    next
      case nonempty: False
      with False have le: "tok + estimateTokens (content f) \<le> ?M" by simp
      from assms st have tok: "tok = sum_list (map (\<lambda>f. estimateTokens (content f)) cur)"
        by (simp add: aloneInv_def)
      have "\<forall>g\<in>set (cur @ [f]). \<not> ?M < estimateTokens (content g)"
      proof
        fix g assume "g \<in> set (cur @ [f])"
        then consider "g \<in> set cur" | "g = f" by auto
        then show "\<not> ?M < estimateTokens (content g)"
        proof cases
          case 1
          from member_le_sum_tokens[OF this] tok le show ?thesis by simp
        next
          case 2
          with le show ?thesis by simp
        qed
      qed
      with assms st s tok show ?thesis by (simp add: aloneInv_def list_all_iff)
    qed
  qed
qed

lemma createBatches_loop_alone:
  "aloneInv cfg st \<Longrightarrow> aloneInv cfg (createBatches_loop cfg B st fs)"
  by (induction fs arbitrary: st) (simp_all add: createBatches_step_alone)

lemma createBatches_oversized_alone:
  assumes "b \<in> set (createBatches cfg fs B)" "f \<in> set b"
    "MAX_INPUT_TOKENS cfg < estimateTokens (content f)"
  shows "b = [f]"
proof -
  have "aloneInv cfg ([], [], 0)" by (simp add: aloneInv_def)
  from createBatches_loop_alone[OF this, of B fs] assms show ?thesis
    by (auto simp: createBatches_def aloneInv_def list_all_iff split: prod.splits if_splits)
qed

lemma createBatches_covers:
  assumes "f \<in> set fs"
  shows "\<exists>b\<in>set (createBatches cfg fs B). f \<in> set b"
proof -
  from assms have "f \<in> set (concat (createBatches cfg fs B))"
    by (simp add: createBatches_concat)
  then show ?thesis by auto
qed

text \<open>
  Claim C4. For every list of items, every \<open>batchSize\<close> of at least 2 and every token
  budget, an item of the input whose estimated tokens alone exceed the budget is in a
  batch of its own: the singleton batch is among the batches, and every batch that
  contains the item contains nothing else.
\<close>

theorem createBatches_oversized_item_alone:
  assumes "2 \<le> batchSize"
    and "f \<in> set fileContents"
    and "MAX_INPUT_TOKENS cfg < estimateTokens (content f)"
  shows "[f] \<in> set (createBatches cfg fileContents batchSize) \<and>
         (\<forall>b\<in>set (createBatches cfg fileContents batchSize). f \<in> set b \<longrightarrow> b = [f])"
proof -
  from createBatches_covers[OF assms(2)] obtain b
    where b: "b \<in> set (createBatches cfg fileContents batchSize)" "f \<in> set b" by blast
  from createBatches_oversized_alone[OF b assms(3)] b(1)
  have "[f] \<in> set (createBatches cfg fileContents batchSize)" by simp
  moreover have "\<forall>b\<in>set (createBatches cfg fileContents batchSize). f \<in> set b \<longrightarrow> b = [f]"
    using createBatches_oversized_alone assms(3) by blast
  ultimately show ?thesis by blast
qed

theorem createBatches_oversized_item_alone_witness:
  "(2::nat) \<le> 3 \<and>
   MAX_INPUT_TOKENS (CONFIG_azure\<lparr>MAX_INPUT_TOKENS := 2\<rparr>) <
     estimateTokens (content \<lparr>path = ''b'', name = ''b'', content = ''0123456789abc''\<rparr>) \<and>
   [\<lparr>path = ''b'', name = ''b'', content = ''0123456789abc''\<rparr>] \<in>
     set (createBatches (CONFIG_azure\<lparr>MAX_INPUT_TOKENS := 2\<rparr>)
       [\<lparr>path = ''a'', name = ''a'', content = ''x''\<rparr>,
        \<lparr>path = ''b'', name = ''b'', content = ''0123456789abc''\<rparr>,
        \<lparr>path = ''c'', name = ''c'', content = ''z''\<rparr>] 3)"
proof -
  have h1: "(2::nat) \<le> 3" by simp
  have h2: "\<lparr>path = ''b'', name = ''b'', content = ''0123456789abc''\<rparr> \<in> set
       [\<lparr>path = ''a'', name = ''a'', content = ''x''\<rparr>,
        \<lparr>path = ''b'', name = ''b'', content = ''0123456789abc''\<rparr>,
        \<lparr>path = ''c'', name = ''c'', content = ''z''\<rparr>]" by simp
  have h3: "MAX_INPUT_TOKENS (CONFIG_azure\<lparr>MAX_INPUT_TOKENS := 2\<rparr>) <
     estimateTokens (content \<lparr>path = ''b'', name = ''b'', content = ''0123456789abc''\<rparr>)"
    by (simp add: estimateTokens_eq)
  from createBatches_oversized_item_alone [OF h1 h2 h3] h1 h3 show ?thesis by blast
qed


section \<open>Properties of the retrying executor\<close>

declare analyzeBatchWithRetry_loop.simps [simp del]

lemma worldAfter_Suc:
  "worldAfter analyzeBatch (Suc n) w = worldAfter analyzeBatch n (snd (analyzeBatch w))"
  by (simp only: worldAfter_def funpow_Suc_right o_apply)

lemma alwaysFails_step:
  assumes "alwaysFails analyzeBatch"
  shows "analyzeBatch w = (Inl (errorOf analyzeBatch w), snd (analyzeBatch w))"
proof -
  from assms have "isl (fst (analyzeBatch w))" by (simp add: alwaysFails_def)
  then have "fst (analyzeBatch w) = Inl (errorOf analyzeBatch w)"
    by (simp add: errorOf_def)
  then show ?thesis by (metis prod.collapse)
qed

text \<open>
  The loop from attempt \<open>a\<close> on, when every invocation fails: it runs the attempts
  \<open>a, ..., N\<close>, waits after each of them but the last, and throws the error of the last
  one (the error it was entered with if no attempt is left).
\<close>

lemma analyzeBatchWithRetry_loop_alwaysFails:
  assumes fails: "alwaysFails analyzeBatch"
  shows "n = RETRY_ATTEMPTS cfg + 1 - a \<Longrightarrow> 1 \<le> a \<Longrightarrow> a \<le> RETRY_ATTEMPTS cfg + 1 \<Longrightarrow>
    analyzeBatchWithRetry_loop cfg analyzeBatch a lastError trace w =
      (Inl (if a \<le> RETRY_ATTEMPTS cfg
            then Some (errorOf analyzeBatch (worldAfter analyzeBatch (RETRY_ATTEMPTS cfg - a) w))
            else lastError),
       trace @ concat (map (\<lambda>k. Invoke k #
                     (if k < RETRY_ATTEMPTS cfg
                      then [Sleep (RETRY_DELAY_MS cfg * RETRY_BACKOFF cfg ^ (k - 1))] else []))
                 [a..<RETRY_ATTEMPTS cfg + 1]),
       worldAfter analyzeBatch (RETRY_ATTEMPTS cfg + 1 - a) w)"
proof (induction n arbitrary: a lastError trace w)
  case 0
  then have "\<not> a \<le> RETRY_ATTEMPTS cfg" by simp
  with 0 show ?case
    by (subst analyzeBatchWithRetry_loop.simps) (simp add: worldAfter_def)
next
  case (Suc n)
  let ?N = "RETRY_ATTEMPTS cfg"
  let ?sleep = "\<lambda>k. Invoke k #
      (if k < ?N then [Sleep (RETRY_DELAY_MS cfg * RETRY_BACKOFF cfg ^ (k - 1))] else [])"
  from Suc.prems have le: "a \<le> ?N" by simp
  obtain e w' where step: "analyzeBatch w = (Inl e, w')"
    using alwaysFails_step[OF fails, of w] by blast
  have e: "errorOf analyzeBatch w = e" by (simp add: errorOf_def step)
  have upt: "[a..<?N + 1] = a # [a + 1..<?N + 1]"
    using le by (simp add: upt_conv_Cons)
  have n: "n = ?N + 1 - (a + 1)" using Suc.prems by simp
  have w1: "worldAfter analyzeBatch (?N + 1 - a) w = worldAfter analyzeBatch (?N + 1 - (a + 1)) w'"
  proof -
    from le have "?N + 1 - a = Suc (?N + 1 - (a + 1))" by simp
    then show ?thesis by (simp only: worldAfter_Suc step snd_conv)
  qed
  show ?case
  proof (cases "a < ?N")
    case True
    have w2: "worldAfter analyzeBatch (?N - a) w = worldAfter analyzeBatch (?N - (a + 1)) w'"
    proof -
      from True have "?N - a = Suc (?N - (a + 1))" by simp
      then show ?thesis by (simp only: worldAfter_Suc step snd_conv)
    qed
    have ih: "analyzeBatchWithRetry_loop cfg analyzeBatch (a + 1) (Some e)
        (trace @ [Invoke a, Sleep (RETRY_DELAY_MS cfg * RETRY_BACKOFF cfg ^ (a - 1))]) w' =
      (Inl (Some (errorOf analyzeBatch (worldAfter analyzeBatch (?N - (a + 1)) w'))),
       (trace @ [Invoke a, Sleep (RETRY_DELAY_MS cfg * RETRY_BACKOFF cfg ^ (a - 1))]) @
         concat (map ?sleep [a + 1..<?N + 1]),
       worldAfter analyzeBatch (?N + 1 - (a + 1)) w')"
      using Suc.IH[OF n, of "Some e" _ w'] True by simp
    have "analyzeBatchWithRetry_loop cfg analyzeBatch a lastError trace w =
        analyzeBatchWithRetry_loop cfg analyzeBatch (a + 1) (Some e)
        (trace @ [Invoke a, Sleep (RETRY_DELAY_MS cfg * RETRY_BACKOFF cfg ^ (a - 1))]) w'"
      using le True step by (subst analyzeBatchWithRetry_loop.simps) (simp add: Let_def)
    also note ih
    finally have res: "analyzeBatchWithRetry_loop cfg analyzeBatch a lastError trace w =
      (Inl (Some (errorOf analyzeBatch (worldAfter analyzeBatch (?N - (a + 1)) w'))),
       (trace @ [Invoke a, Sleep (RETRY_DELAY_MS cfg * RETRY_BACKOFF cfg ^ (a - 1))]) @
         concat (map ?sleep [a + 1..<?N + 1]),
       worldAfter analyzeBatch (?N + 1 - (a + 1)) w')" .
    have tr: "trace @ concat (map ?sleep [a..<?N + 1]) =
        (trace @ [Invoke a, Sleep (RETRY_DELAY_MS cfg * RETRY_BACKOFF cfg ^ (a - 1))]) @
         concat (map ?sleep [a + 1..<?N + 1])"
      using True by (simp only: upt) simp
    show ?thesis
      by (simp only: res tr w1 w2 le if_True)
  next
    case False
    with le have eq: "a = ?N" by simp
    have last: "analyzeBatchWithRetry_loop cfg analyzeBatch (a + 1) (Some e)
        (trace @ [Invoke a]) w' = (Inl (Some e), trace @ [Invoke a], w')"
      using eq by (subst analyzeBatchWithRetry_loop.simps) simp
    have w0: "worldAfter analyzeBatch (?N - a) w = w" using eq by (simp add: worldAfter_def)
    have w1': "worldAfter analyzeBatch (?N + 1 - a) w = w'"
      using eq by (simp add: worldAfter_def step)
    have "analyzeBatchWithRetry_loop cfg analyzeBatch a lastError trace w =
        analyzeBatchWithRetry_loop cfg analyzeBatch (a + 1) (Some e) (trace @ [Invoke a]) w'"
      using le False step by (subst analyzeBatchWithRetry_loop.simps) simp
    also note last
    finally have res: "analyzeBatchWithRetry_loop cfg analyzeBatch a lastError trace w =
        (Inl (Some e), trace @ [Invoke a], w')" .
    have tr: "trace @ concat (map ?sleep [a..<?N + 1]) = trace @ [Invoke a]"
      using eq by simp
    show ?thesis
      by (simp only: res tr w0 w1' e le if_True)
  qed
qed

lemma analyzeBatchWithRetry_alwaysFails:
  assumes "alwaysFails analyzeBatch"
  shows "analyzeBatchWithRetry cfg analyzeBatch w =
      (Inl (if RETRY_ATTEMPTS cfg = 0 then None
            else Some (errorOf analyzeBatch
                         (worldAfter analyzeBatch (RETRY_ATTEMPTS cfg - 1) w))),
       policyTrace cfg,
       worldAfter analyzeBatch (RETRY_ATTEMPTS cfg) w)"
  unfolding analyzeBatchWithRetry_def policyTrace_def
  using analyzeBatchWithRetry_loop_alwaysFails[OF assms refl, of 1 cfg None "[]" w]
  by (auto simp: Suc_le_eq)

lemma invocations_policy_upt:
  "invocations (concat (map (\<lambda>k. Invoke k # (if k < N then [Sleep (d k)] else [])) [a..<a + n])) = n"
  by (induction n) (simp_all add: invocations_def)

lemma invocations_policyTrace: "invocations (policyTrace cfg) = RETRY_ATTEMPTS cfg"
  unfolding policyTrace_def
  using invocations_policy_upt[of "RETRY_ATTEMPTS cfg" _ 1 "RETRY_ATTEMPTS cfg"]
  by (simp add: add.commute)

lemma waits_policy_upt:
  "a + n \<le> N + 1 \<Longrightarrow>
   waits (concat (map (\<lambda>k. Invoke k # (if k < N then [Sleep (d k)] else [])) [a..<a + n])) =
     map d [a..<min (a + n) N]"
proof (induction n)
  case 0
  then show ?case by (simp add: waits_def)
next
  case (Suc n)
  then have ih: "waits (concat (map (\<lambda>k. Invoke k # (if k < N then [Sleep (d k)] else []))
      [a..<a + n])) = map d [a..<min (a + n) N]" by simp
  from Suc.prems have le: "a + n \<le> N" by simp
  show ?case
  proof (cases "a + n < N")
    case True
    with ih show ?thesis by (simp add: waits_def min_def)
  next
    case False
    with le have "a + n = N" by simp
    with ih show ?thesis by (simp add: waits_def min_def)
  qed
qed

lemma waits_policyTrace:
  "waits (policyTrace cfg) =
     map (\<lambda>k. RETRY_DELAY_MS cfg * RETRY_BACKOFF cfg ^ (k - 1)) [1..<RETRY_ATTEMPTS cfg]"
  unfolding policyTrace_def
  using waits_policy_upt[of 1 "RETRY_ATTEMPTS cfg" "RETRY_ATTEMPTS cfg"
      "\<lambda>k. RETRY_DELAY_MS cfg * RETRY_BACKOFF cfg ^ (k - 1)"]
  by (simp add: add.commute)

lemma analyzeBatchWithRetry_third_attempt:
  assumes "3 \<le> RETRY_ATTEMPTS cfg"
    and "analyzeBatch w0 = (Inl e1, w1)"
    and "analyzeBatch w1 = (Inl e2, w2)"
    and "analyzeBatch w2 = (Inr r, w3)"
  shows "analyzeBatchWithRetry cfg analyzeBatch w0 =
     (Inr r,
      [Invoke 1, Sleep (RETRY_DELAY_MS cfg), Invoke 2,
       Sleep (RETRY_DELAY_MS cfg * RETRY_BACKOFF cfg), Invoke 3],
      w3)"
proof -
  have a3: "analyzeBatchWithRetry_loop cfg analyzeBatch 3 (Some e2)
      [Invoke 1, Sleep (RETRY_DELAY_MS cfg), Invoke 2,
       Sleep (RETRY_DELAY_MS cfg * RETRY_BACKOFF cfg)] w2 =
     (Inr r,
      [Invoke 1, Sleep (RETRY_DELAY_MS cfg), Invoke 2,
       Sleep (RETRY_DELAY_MS cfg * RETRY_BACKOFF cfg), Invoke 3], w3)"
    using assms(1,4) by (subst analyzeBatchWithRetry_loop.simps) (simp add: Let_def)
  have a2: "analyzeBatchWithRetry_loop cfg analyzeBatch 2 (Some e1)
      [Invoke 1, Sleep (RETRY_DELAY_MS cfg)] w1 =
     analyzeBatchWithRetry_loop cfg analyzeBatch 3 (Some e2)
      [Invoke 1, Sleep (RETRY_DELAY_MS cfg), Invoke 2,
       Sleep (RETRY_DELAY_MS cfg * RETRY_BACKOFF cfg)] w2"
    using assms(1,3) by (subst analyzeBatchWithRetry_loop.simps) (simp add: Let_def)
  have a1: "analyzeBatchWithRetry_loop cfg analyzeBatch 1 None [] w0 =
     analyzeBatchWithRetry_loop cfg analyzeBatch 2 (Some e1)
      [Invoke 1, Sleep (RETRY_DELAY_MS cfg)] w1"
    using assms(1,2) by (subst analyzeBatchWithRetry_loop.simps) (simp add: Let_def numeral_2_eq_2)
  show ?thesis unfolding analyzeBatchWithRetry_def by (simp only: a1 a2 a3)
qed

lemma policyTrace_defaults:
  "policyTrace CONFIG_azure = [Invoke 1, Sleep 1000, Invoke 2, Sleep 2000, Invoke 3]"
  "policyTrace CONFIG_gemini = [Invoke 1, Sleep 1000, Invoke 2, Sleep 2000, Invoke 3]"
  by (simp_all add: policyTrace_def CONFIG_azure_def CONFIG_gemini_def upt_rec)

text \<open>
  Claim C5. When every invocation of the submit function fails, the retrying executor
  invokes it exactly \<open>N = RETRY_ATTEMPTS\<close> times (the trace has \<open>N\<close> invocations and the
  world has gone through \<open>N\<close> of them), waits
  \<open>RETRY_DELAY_MS * RETRY_BACKOFF ^ (k - 1)\<close> after each failed attempt \<open>k < N\<close> and
  nowhere else, and throws the error of the last invocation. When the submit function
  fails twice and then succeeds (and at least three attempts are allowed), exactly three
  invocations occur, with the waits of attempts 1 and 2 between them, and the success
  value is returned.
\<close>

theorem analyzeBatchWithRetry_policy:
  "(alwaysFails analyzeBatch \<longrightarrow>
      analyzeBatchWithRetry cfg analyzeBatch w =
        (Inl (if RETRY_ATTEMPTS cfg = 0 then None
              else Some (errorOf analyzeBatch
                           (worldAfter analyzeBatch (RETRY_ATTEMPTS cfg - 1) w))),
         policyTrace cfg,
         worldAfter analyzeBatch (RETRY_ATTEMPTS cfg) w)) \<and>
   invocations (policyTrace cfg) = RETRY_ATTEMPTS cfg \<and>
   waits (policyTrace cfg) =
     map (\<lambda>k. RETRY_DELAY_MS cfg * RETRY_BACKOFF cfg ^ (k - 1)) [1..<RETRY_ATTEMPTS cfg] \<and>
   (3 \<le> RETRY_ATTEMPTS cfg \<and> analyzeBatch w0 = (Inl e1, w1) \<and>
    analyzeBatch w1 = (Inl e2, w2) \<and> analyzeBatch w2 = (Inr r, w3) \<longrightarrow>
      analyzeBatchWithRetry cfg analyzeBatch w0 =
        (Inr r,
         [Invoke 1, Sleep (RETRY_DELAY_MS cfg), Invoke 2,
          Sleep (RETRY_DELAY_MS cfg * RETRY_BACKOFF cfg), Invoke 3],
         w3))"
  using analyzeBatchWithRetry_alwaysFails[of analyzeBatch cfg w]
    invocations_policyTrace[of cfg] waits_policyTrace[of cfg]
    analyzeBatchWithRetry_third_attempt[of cfg analyzeBatch w0 e1 w1 e2 w2 r w3]
  by blast

theorem analyzeBatchWithRetry_policy_witness:
  "alwaysFails (\<lambda>w::nat. (Inl w :: nat + nat, Suc w)) \<and>
   analyzeBatchWithRetry CONFIG_azure (\<lambda>w::nat. (Inl w :: nat + nat, Suc w)) 0 =
     (Inl (Some 2), [Invoke 1, Sleep 1000, Invoke 2, Sleep 2000, Invoke 3], 3) \<and>
   3 \<le> RETRY_ATTEMPTS CONFIG_azure \<and>
   analyzeBatchWithRetry CONFIG_azure
       (\<lambda>w::nat. (if w < 2 then Inl w else Inr w :: nat + nat, Suc w)) 0 =
     (Inr 2, [Invoke 1, Sleep 1000, Invoke 2, Sleep 2000, Invoke 3], 3)"
proof -
  let ?f = "\<lambda>w::nat. (Inl w :: nat + nat, Suc w)"
  let ?g = "\<lambda>w::nat. (if w < 2 then Inl w else Inr w :: nat + nat, Suc w)"
  have fails: "alwaysFails ?f" by (simp add: alwaysFails_def)
  have n: "RETRY_ATTEMPTS CONFIG_azure = 3" by (simp add: CONFIG_azure_def)
  have w2: "worldAfter ?f 2 0 = 2" by (simp add: worldAfter_def eval_nat_numeral)
  have w3: "worldAfter ?f 3 0 = 3" by (simp add: worldAfter_def eval_nat_numeral)
  have e: "errorOf ?f 2 = 2" by (simp add: errorOf_def)
  have a: "analyzeBatchWithRetry CONFIG_azure ?f 0 =
     (Inl (Some 2), [Invoke 1, Sleep 1000, Invoke 2, Sleep 2000, Invoke 3], 3)"
    using analyzeBatchWithRetry_policy [of ?f CONFIG_azure 0] fails
    by (simp add: n w2 w3 e policyTrace_defaults)
  have three: "3 \<le> RETRY_ATTEMPTS CONFIG_azure" by (simp add: n)
  have g0: "?g 0 = (Inl 0, 1)" and g1: "?g 1 = (Inl 1, 2)" and g2: "?g 2 = (Inr 2, 3)"
    by simp_all
  have b: "analyzeBatchWithRetry CONFIG_azure ?g 0 =
     (Inr 2, [Invoke 1, Sleep 1000, Invoke 2, Sleep 2000, Invoke 3], 3)"
    using analyzeBatchWithRetry_policy [of ?g CONFIG_azure _ 0 0 1 1 2 2 3] three g0 g1 g2
    by (simp add: CONFIG_azure_def)
  from fails a three b show ?thesis by blast
qed


section \<open>Properties of the bounded-concurrency dispatch\<close>











text \<open>
  With \<open>concurrency = 0\<close> the wave loop returns only when there is nothing left to
  process: on a non-empty list of batches \<open>processBatchesInParallel\<close> does not return.
\<close>

lemma processBatchesInParallel_loop_zero:
  assumes "processBatchesInParallel_loop (analyze :: nat \<Rightarrow> batch \<Rightarrow> 'e + 'r)
             batches concurrency i acc = Some res"
  shows "concurrency = 0 \<longrightarrow> \<not> i < length batches"
proof (rule processBatchesInParallel_loop.raw_induct
    [where P = "\<lambda>analyze batches concurrency i acc res.
                  concurrency = 0 \<longrightarrow> \<not> i < length batches", OF _ assms])
  fix loop :: "(nat \<Rightarrow> batch \<Rightarrow> 'e + 'r) \<Rightarrow> batch list \<Rightarrow> nat \<Rightarrow> nat \<Rightarrow>
      'r list \<times> 'e BatchFailure list \<Rightarrow> ('r list \<times> 'e BatchFailure list) option"
  fix analyze' batches' concurrency' i' acc' res'
  assume ih: "\<And>analyze batches concurrency i acc res.
      loop analyze batches concurrency i acc = Some res \<Longrightarrow>
      concurrency = 0 \<longrightarrow> \<not> i < length batches"
  assume step: "(if i' < length batches'
      then loop analyze' batches' concurrency' (i' + concurrency')
            (processChunk analyze' batches' concurrency' i' acc')
      else Some acc') = Some res'"
  show "concurrency' = 0 \<longrightarrow> \<not> i' < length batches'"
  proof (intro impI notI)
    assume z: "concurrency' = 0" and lt: "i' < length batches'"
    with step have "loop analyze' batches' concurrency' (i' + concurrency')
        (processChunk analyze' batches' concurrency' i' acc') = Some res'" by simp
    from ih[OF this] z lt show False by simp
  qed
qed

lemma processBatchesInParallel_zero_diverges:
  assumes "batches \<noteq> []"
  shows "processBatchesInParallel batches analyze 0 = None"
proof (rule ccontr)
  assume "processBatchesInParallel batches analyze 0 \<noteq> None"
  then obtain res where "processBatchesInParallel_loop analyze batches 0 0 ([], []) = Some res"
    by (auto simp: processBatchesInParallel_def)
  from processBatchesInParallel_loop_zero[OF this] assms show False by simp
qed


section \<open>Properties of the JSON repair\<close>





lemma indexOf_nonneg_or_minus_one: "indexOf s c = -1 \<or> 0 \<le> indexOf s c"
  by (induction s) (auto simp: Let_def)







text \<open>
  The repair of the Azure script has no step that strips a comma: the example of its own
  documentation comment, \<^verbatim>\<open>attemptJsonRepair('{"key": "value",}')\<close>, comes back
  unchanged and does not parse.
\<close>

lemma attemptJsonRepair_azure_keeps_comma:
  \<open>attemptJsonRepair_azure ''{"key": "value",}'' = ''{"key": "value",}'' \<and>
   JSON_parse (attemptJsonRepair_azure ''{"key": "value",}'') = None \<and>
   parseWithRepair attemptJsonRepair_azure ''{"key": "value",}'' = None\<close>
  by code_simp

text \<open>What the Azure repair does do: a raw TAB inside a string becomes the escape.\<close>

lemma attemptJsonRepair_azure_tab:
  \<open>JSON_parse (''{"k":"a'' @ [TAB] @ ''b"}'') = None \<and>
   parseWithRepair attemptJsonRepair_azure (''{"k":"a'' @ [TAB] @ ''b"}'') =
     Some (JObj [(''k'', JStr [CHR ''a'', TAB, CHR ''b''])])\<close>
  by code_simp


section \<open>Properties of the aggregation\<close>

lemma floor_rat_numeral [simp]:
  "\<lfloor>numeral a / numeral b :: rat\<rfloor> = numeral a div numeral b"
  by (metis floor_divide_of_int_eq of_int_numeral)

lemma filesInBatch_pos: "0 < filesInBatch b"
  by (simp add: filesInBatch_def split: option.splits)

lemma categoryTotals_foldl:
  "foldl (\<lambda>(weightedSum, totalWeight) batch.
            (weightedSum + batchScore c batch * rat_of_nat (filesInBatch batch),
             totalWeight + filesInBatch batch))
         (ws, tw) batchResults =
   (ws + (\<Sum>b\<leftarrow>batchResults. batchScore c b * rat_of_nat (filesInBatch b)),
    tw + (\<Sum>b\<leftarrow>batchResults. filesInBatch b))"
  by (induction batchResults arbitrary: ws tw) (simp_all add: algebra_simps)

lemma categoryTotals_sums:
  "categoryTotals c batchResults =
     ((\<Sum>b\<leftarrow>batchResults. batchScore c b * rat_of_nat (filesInBatch b)),
      (\<Sum>b\<leftarrow>batchResults. filesInBatch b))"
  unfolding categoryTotals_def by (simp add: categoryTotals_foldl)

lemma totalWeight_pos:
  "batchResults \<noteq> [] \<Longrightarrow> 0 < (\<Sum>b\<leftarrow>batchResults. filesInBatch b)"
  by (cases batchResults) (simp_all add: filesInBatch_pos)

lemma of_nat_sum_list_map: "rat_of_nat (\<Sum>b\<leftarrow>xs. f b) = (\<Sum>b\<leftarrow>xs. rat_of_nat (f b))"
  by (induction xs) simp_all

lemma categoryScore_weightedMean:
  assumes "batchResults \<noteq> []"
  shows "categoryScore c batchResults = roundToOneDecimal (weightedMean c batchResults)"
  using totalWeight_pos[OF assms]
  by (simp add: categoryScore_def categoryTotals_sums Math_round_def roundToOneDecimal_def
      weightedMean_def of_nat_sum_list_map)

lemma getValidBaseBatch_Inr:
  "getValidBaseBatch batchResults = Inr baseBatch \<Longrightarrow>
   hasRequiredStructure baseBatch \<and> baseBatch \<in> set batchResults"
  by (induction batchResults) (auto split: if_splits)


lemma hasRequiredStructure_grades:
  assumes "hasRequiredStructure b"
  obtains ps g ar cq va eh ov where "project_summary b = Some ps" "grades b = Some g"
    "architecture g = Some ar" "code_quality g = Some cq" "validations g = Some va"
    "error_handling g = Some eh" "overall g = Some ov"
  using assms by (auto simp: hasRequiredStructure_def split: option.splits)

lemma aggregateResults_Inr:
  assumes "aggregateResults batchResults totalFiles totalBatches = Inr aggregated"
  obtains baseBatch g where "getValidBaseBatch batchResults = Inr baseBatch"
    "hasRequiredStructure baseBatch" "grades baseBatch = Some g"
    "grades aggregated = Some (aggregateGrades batchResults g)"
proof -
  from assms obtain baseBatch where b: "getValidBaseBatch batchResults = Inr baseBatch"
    by (auto simp: aggregateResults_def split: sum.splits)
  from getValidBaseBatch_Inr[OF b] have h: "hasRequiredStructure baseBatch" by simp
  then obtain g where g: "grades baseBatch = Some g"
    by (auto elim: hasRequiredStructure_grades)
  from assms b g have "grades aggregated = Some (aggregateGrades batchResults g)"
    by (auto simp: aggregateResults_def)
  with b h g that show thesis by blast
qed





lemma batchScore_exampleBatch:
  "batchScore c (exampleBatch a q v e n) =
     (case c of Architecture \<Rightarrow> a | CodeQuality \<Rightarrow> q | Validations \<Rightarrow> v | ErrorHandling \<Rightarrow> e)"
  by (cases c) (simp_all add: batchScore_def batchGrade_def exampleBatch_def exampleGrade_def)

lemma filesInBatch_exampleBatch:
  "filesInBatch (exampleBatch a q v e n) = (if n = 0 then 1 else n)"
  by (simp add: filesInBatch_def exampleBatch_def)

lemma hasRequiredStructure_exampleBatch: "hasRequiredStructure (exampleBatch a q v e n)"
  by (simp add: hasRequiredStructure_def exampleBatch_def)















lemma reportedOverall_aggregateResults:
  assumes "aggregateResults batchResults totalFiles totalBatches = Inr aggregated"
  shows "\<exists>ov. reportedOverall (Inr aggregated) =
     Some (ov\<lparr>weighted_score := Some (roundToOneDecimal (computeOverallScore batchResults)),
               final_grade := Some (gradeLetter (computeOverallScore batchResults))\<rparr>)"
proof -
  from assms obtain baseBatch g where h: "hasRequiredStructure baseBatch"
    "grades baseBatch = Some g" "grades aggregated = Some (aggregateGrades batchResults g)"
    by (rule aggregateResults_Inr)
  from h(1,2) obtain ov where "overall g = Some ov"
    by (auto elim: hasRequiredStructure_grades)
  with h(3) show ?thesis
    by (auto simp: reportedOverall_def aggregateGrades_def aggregateOverall_def Let_def
        Math_round_def roundToOneDecimal_def)
qed

lemma computeOverallScore_weights:
  "computeOverallScore batchResults =
     roundToOneDecimal (weightedMean Architecture batchResults) * (25 / 100) +
     roundToOneDecimal (weightedMean CodeQuality batchResults) * (30 / 100) +
     roundToOneDecimal (weightedMean Validations batchResults) * (25 / 100) +
     roundToOneDecimal (weightedMean ErrorHandling batchResults) * (20 / 100)"
  if "batchResults \<noteq> []"
  using that by (simp add: computeOverallScore_def categoryScore_weightedMean)

lemma gradeLetter_thresholds:
  "gradeLetter 9 = ''A''" "gradeLetter 7 = ''B''" "gradeLetter 5 = ''C''"
  "gradeLetter 3 = ''D''" "gradeLetter (29 / 10) = ''F''"
  by (simp_all add: gradeLetter_def)

text \<open>
  Claim C1 on the code. One batch of one file with the scores 9, 9, 9 and 8.8: the
  weighted sum is 8.96, the reported \<open>weighted_score\<close> is its rounding 9.0, and the
  reported \<open>final_grade\<close> is B, the letter of 8.96, while the letter of the reported 9.0
  is A. (The template's own overall grade, 0 and F, is replaced.)
\<close>

theorem aggregateResults_grade_of_unrounded_score:
  "computeOverallScore [exampleBatch 9 9 9 (88 / 10) 1] = 896 / 100 \<and>
   reportedOverall (aggregateResults [exampleBatch 9 9 9 (88 / 10) 1] 1 1) =
     Some \<lparr>weighted_score = Some 9, final_grade = Some ''B'', summary = None\<rparr> \<and>
   gradeLetter 9 = ''A''"
proof -
  define b where "b = exampleBatch 9 9 9 (88 / 10) 1"
  have w: "filesInBatch b = 1" by (simp add: b_def filesInBatch_exampleBatch)
  have sc: "batchScore Architecture b = 9" "batchScore CodeQuality b = 9"
    "batchScore Validations b = 9" "batchScore ErrorHandling b = 88 / 10"
    by (simp_all add: b_def batchScore_exampleBatch)
  have s: "categoryScore Architecture [b] = 9" "categoryScore CodeQuality [b] = 9"
    "categoryScore Validations [b] = 9" "categoryScore ErrorHandling [b] = 88 / 10"
    by (simp_all add: categoryScore_def categoryTotals_def sc w Math_round_def)
  have o: "computeOverallScore [b] = 896 / 100"
    by (simp add: computeOverallScore_def s)
  have g: "gradeLetter (computeOverallScore [b]) = ''B''"
    by (simp add: o gradeLetter_def)
  have r: "rat_of_int (Math_round (computeOverallScore [b] * 10)) / 10 = 9"
    by (simp add: o Math_round_def)
  have st: "hasRequiredStructure b" unfolding b_def by (rule hasRequiredStructure_exampleBatch)
  have ov: "grades b = Some \<lparr>architecture = Some (exampleGrade 9),
      code_quality = Some (exampleGrade 9), validations = Some (exampleGrade 9),
      error_handling = Some (exampleGrade (88 / 10)),
      overall = Some \<lparr>weighted_score = Some 0, final_grade = Some ''F'', summary = None\<rparr>\<rparr>"
    by (simp add: b_def exampleBatch_def)
  have "reportedOverall (aggregateResults [b] 1 1) =
     Some \<lparr>weighted_score = Some 9, final_grade = Some ''B'', summary = None\<rparr>"
    by (simp add: reportedOverall_def aggregateResults_def st ov
        aggregateGrades_def aggregateOverall_def g r)
  with o gradeLetter_thresholds(1) show ?thesis unfolding b_def by blast
qed


section \<open>Properties of the schema check\<close>

lemma analyzeBatch_finish_Inl:
  "(analyzeBatch_finish r usage fileContents = Inl MissingRequiredFields) =
   (project_summary r = None \<or> grades r = None)"
  by (simp add: analyzeBatch_finish_def)






text \<open>
  The error of the check is an error of \<open>analyzeBatch\<close> like any other: a batch whose
  record keeps failing the check is retried and, after the last attempt, fails with it.
\<close>

lemma schema_error_is_retried:
  assumes "project_summary r = None \<or> grades r = None"
  shows "analyzeBatchWithRetry CONFIG_azure
           (\<lambda>w. (analyzeBatch_finish r usage fileContents, w)) w =
         (Inl (Some MissingRequiredFields),
          [Invoke 1, Sleep 1000, Invoke 2, Sleep 2000, Invoke 3], w)"
proof -
  define f :: "'a \<Rightarrow> (analyze_error + BatchResult) \<times> 'a"
    where "f = (\<lambda>w. (analyzeBatch_finish r usage fileContents, w))"
  from assms have e: "analyzeBatch_finish r usage fileContents = Inl MissingRequiredFields"
    by (simp add: analyzeBatch_finish_Inl)
  have fails: "alwaysFails f" by (simp add: alwaysFails_def f_def e)
  have w: "worldAfter f n w = w" for n by (induction n) (simp_all add: worldAfter_def f_def)
  have err: "errorOf f w = MissingRequiredFields" by (simp add: errorOf_def f_def e)
  have n: "RETRY_ATTEMPTS CONFIG_azure = 3" by (simp add: CONFIG_azure_def)
  have "analyzeBatchWithRetry CONFIG_azure f w =
         (Inl (Some MissingRequiredFields),
          [Invoke 1, Sleep 1000, Invoke 2, Sleep 2000, Invoke 3], w)"
    using analyzeBatchWithRetry_alwaysFails[OF fails, of CONFIG_azure w]
    by (simp add: n w err policyTrace_defaults)
  then show ?thesis unfolding f_def .
qed


section \<open>Properties of the cost estimate\<close>

lemma calculateCost_gemini_flash:
  "calculateCost_gemini tokenUsage ''gemini-2.5-flash'' =
     \<lparr>input_cost_usd = Num (rat_of_nat (prompt_tokens tokenUsage) / 1000000 * (30 / 100)),
      output_cost_usd = Num (rat_of_nat (completion_tokens tokenUsage) / 1000000 * (250 / 100)),
      total_cost_usd = Num (rat_of_nat (prompt_tokens tokenUsage) / 1000000 * (30 / 100) +
                            rat_of_nat (completion_tokens tokenUsage) / 1000000 * (250 / 100)),
      model = ''gemini-2.5-flash''\<rparr>"
  by (simp add: calculateCost_gemini_def PRICING_def PRICING_flash_def timesRate_def)

lemma calculateCost_gemini_pro:
  "calculateCost_gemini tokenUsage ''gemini-2.5-pro'' =
     \<lparr>input_cost_usd = Num (rat_of_nat (prompt_tokens tokenUsage) / 1000000 *
         (if prompt_tokens tokenUsage > 200000 then 250 / 100 else 125 / 100)),
      output_cost_usd = Num (rat_of_nat (completion_tokens tokenUsage) / 1000000 *
         (if completion_tokens tokenUsage > 200000 then 15 else 10)),
      total_cost_usd = Num (rat_of_nat (prompt_tokens tokenUsage) / 1000000 *
         (if prompt_tokens tokenUsage > 200000 then 250 / 100 else 125 / 100) +
         rat_of_nat (completion_tokens tokenUsage) / 1000000 *
         (if completion_tokens tokenUsage > 200000 then 15 else 10)),
      model = ''gemini-2.5-pro''\<rparr>"
  by (simp add: calculateCost_gemini_def PRICING_def PRICING_pro_def timesRate_def Let_def)

lemma calculateCost_gemini_flash_example:
  "calculateCost_gemini
     \<lparr>prompt_tokens = 1000000, completion_tokens = 200000, total_tokens = 1200000\<rparr>
     ''gemini-2.5-flash'' =
   \<lparr>input_cost_usd = Num (30 / 100), output_cost_usd = Num (50 / 100),
    total_cost_usd = Num (80 / 100), model = ''gemini-2.5-flash''\<rparr>"
  by (simp add: calculateCost_gemini_flash)

text \<open>
  For a model name that is neither of the two, the pricing entry falls back to the flat
  one, but the rates are then read from the tiered properties, which the flat entry does
  not have.
\<close>

lemma calculateCost_gemini_other_model:
  assumes "modelName \<noteq> ''gemini-2.5-flash''" "modelName \<noteq> ''gemini-2.5-pro''"
  shows "calculateCost_gemini tokenUsage modelName =
     \<lparr>input_cost_usd = NaN, output_cost_usd = NaN, total_cost_usd = NaN, model = modelName\<rparr>"
  using assms
  by (simp add: calculateCost_gemini_def PRICING_def PRICING_flash_def timesRate_def Let_def)

lemma calculateCost_azure_flat:
  "calculateCost_azure tokenUsage modelName =
     \<lparr>input_cost_usd = Num (rat_of_nat (prompt_tokens tokenUsage) / 1000000 * (15 / 100)),
      output_cost_usd = Num (rat_of_nat (completion_tokens tokenUsage) / 1000000 * (60 / 100)),
      total_cost_usd = Num (rat_of_nat (prompt_tokens tokenUsage) / 1000000 * (15 / 100) +
                            rat_of_nat (completion_tokens tokenUsage) / 1000000 * (60 / 100)),
      model = ''GPT-4o-mini (Azure)''\<rparr>"
  by (simp add: calculateCost_azure_def)

text \<open>
  Claim C8 on the code of the Gemini batch script, at the usage of the specification's
  example and a model name the pricing table does not have: the table lookup finds
  nothing, the fallback entry is the flat one with its input rate 0.30, and all three
  costs are \<^verbatim>\<open>NaN\<close>, where the claim has 0.30, 0.50 and 0.80.
\<close>

theorem calculateCost_gemini_unknown_model_NaN:
  "PRICING ''gemini-1.5-pro'' = None \<and>
   timesRate (rat_of_nat 1000000 / 1000000) (input_rate PRICING_flash) = Num (30 / 100) \<and>
   calculateCost_gemini
     \<lparr>prompt_tokens = 1000000, completion_tokens = 200000, total_tokens = 1200000\<rparr>
     ''gemini-1.5-pro'' =
   \<lparr>input_cost_usd = NaN, output_cost_usd = NaN, total_cost_usd = NaN,
    model = ''gemini-1.5-pro''\<rparr>"
  by (simp add: calculateCost_gemini_other_model PRICING_def PRICING_flash_def timesRate_def)


end
